theory Spec2Isabelle
  imports Main "HOL-Library.Sublist"
begin

section \<open>The query compiler of \<open>apply-query\<close> (src/unnamed/part\_000, lines 1--751)\<close>

text \<open>
  The source is an imperative TypeScript module that drives a Knex query builder.
  The embedding keeps its shape:
  \<^item> a JavaScript value (a filter, an operator's operand) is a \<open>json\<close> tree; the entries of
    an object are listed in the order \<open>Object.entries\<close> enumerates them;
  \<^item> the query builder \<open>dbQuery\<close> is the list of the method calls made on it, oldest first
    (\<open>builder\<close>); a callback that receives a nested builder is the list of calls it makes;
  \<^item> an exception is the left summand of \<open>error + 'a\<close>;
  \<^item> \<open>await\<close> is sequential composition: every asynchronous call runs to completion
    before the next statement;
  \<^item> functions of the repository that are imported but not part of the source file
    (\<open>getRelationInfo\<close>, \<open>getColumnPath\<close>, \<open>getColumn\<close>, \<open>stripFunction\<close>, the schema
    accessors, the database helpers), library functions (\<open>uuid-validate\<close>,
    \<open>getFilterOperatorsForType\<close>, \<open>getOutputTypeForFunction\<close>) and the built-ins
    \<open>Number\<close> and \<open>toLowerCase\<close> are fields of an environment record \<open>env\<close>;
  \<^item> the random alias generator \<open>generateAlias\<close> is a supply \<open>nat \<Rightarrow> string\<close> read at a
    counter that every call increments.
\<close>

subsection \<open>JavaScript values\<close>

text \<open>Numbers are the integers and \<open>NaN\<close>; fractional values are not represented.\<close>

datatype number = Finite int | NaN

datatype json =
    JUndefined
  | JNull
  | JBool bool
  | JNum number
  | JStr string
  | JArr "json list"
  | JObj "(string \<times> json) list"

datatype error =
    InvalidQueryException string
  | TypeError
  | IllTyped

text \<open>
  \<open>InvalidQueryException\<close> carries its message; \<open>TypeError\<close> is what JavaScript throws on
  a property read or a call on \<open>null\<close> or \<open>undefined\<close>. \<open>IllTyped\<close> is not an exception
  of the source: it marks the inputs outside the source's types that the embedding leaves
  out, namely a non-empty primitive string where the signature asks for a \<open>Filter\<close> object
  (see \<open>filter_entries\<close>), and a \<open>null\<close> that a non-null assertion \<open>!\<close> passes on as a
  string (\<open>relation.related_collection!\<close> of an m2o relation, \<open>one_collection_field!\<close>).
\<close>

definition digit_char :: "nat \<Rightarrow> char" where
  "digit_char n = ''0123456789'' ! n"

function string_of_nat :: "nat \<Rightarrow> string" where
  "string_of_nat n =
     (if n < 10 then [digit_char n] else string_of_nat (n div 10) @ [digit_char (n mod 10)])"
  by pat_completeness auto
termination
  by (relation "measure id") auto

definition string_of_int :: "int \<Rightarrow> string" where
  "string_of_int i = (if i < 0 then CHR ''-'' # string_of_nat (nat (- i)) else string_of_nat (nat i))"

fun index_keys :: "nat \<Rightarrow> nat \<Rightarrow> string list" where
  "index_keys i 0 = []"
| "index_keys i (Suc n) = string_of_nat i # index_keys (Suc i) n"

text \<open>\<open>Object.keys\<close>, \<open>Object.values\<close>: they throw on \<open>null\<close> and \<open>undefined\<close>, list the
  indices of an array or a string, and give nothing for a number or a boolean.\<close>

fun object_keys :: "json \<Rightarrow> error + string list" where
  "object_keys JUndefined = Inl TypeError"
| "object_keys JNull = Inl TypeError"
| "object_keys (JBool b) = Inr []"
| "object_keys (JNum n) = Inr []"
| "object_keys (JStr s) = Inr (index_keys 0 (length s))"
| "object_keys (JArr xs) = Inr (index_keys 0 (length xs))"
| "object_keys (JObj es) = Inr (map fst es)"

fun object_values :: "json \<Rightarrow> error + json list" where
  "object_values JUndefined = Inl TypeError"
| "object_values JNull = Inl TypeError"
| "object_values (JBool b) = Inr []"
| "object_values (JNum n) = Inr []"
| "object_values (JStr s) = Inr (map (\<lambda>c. JStr [c]) s)"
| "object_values (JArr xs) = Inr xs"
| "object_values (JObj es) = Inr (map snd es)"

text \<open>lodash \<open>isPlainObject\<close> on a value that came from JSON.\<close>

fun isPlainObject :: "json \<Rightarrow> bool" where
  "isPlainObject (JObj es) = True"
| "isPlainObject v = False"

fun js_truthy :: "json \<Rightarrow> bool" where
  "js_truthy JUndefined = False"
| "js_truthy JNull = False"
| "js_truthy (JBool b) = b"
| "js_truthy (JNum (Finite i)) = (i \<noteq> 0)"
| "js_truthy (JNum NaN) = False"
| "js_truthy (JStr s) = (s \<noteq> [])"
| "js_truthy (JArr xs) = True"
| "js_truthy (JObj es) = True"

text \<open>\<open>s.split(c)\<close> for a one-character separator.\<close>

fun split_on :: "char \<Rightarrow> string \<Rightarrow> string list" where
  "split_on c [] = [[]]"
| "split_on c (x # xs) =
     (if x = c then [] # split_on c xs
      else (case split_on c xs of [] \<Rightarrow> [[x]] | y # ys \<Rightarrow> (x # y) # ys))"

definition startsWith :: "string \<Rightarrow> string \<Rightarrow> bool" where
  "startsWith s p = (take (length p) s = p)"

text \<open>\<open>s.includes(c)\<close> for a one-character needle, \<open>xs.includes(x)\<close> for an array.\<close>

definition js_includes :: "'a list \<Rightarrow> 'a \<Rightarrow> bool" where
  "js_includes xs x = (x \<in> set xs)"

subsection \<open>The query builder\<close>

datatype logical = And | Or

datatype order = Asc | Desc

text \<open>An operand of a builder method: a plain \<open>table.column\<close> string, the reference
  \<open>getColumn\<close> returned, a bound string, or \<open>knex.raw(sql, bindings)\<close>.\<close>

datatype expr =
    Ident string
  | Column string
  | Text string
  | Raw string "expr list"

datatype agg_fn = Avg | AvgDistinct | Count | CountDistinct | Sum | SumDistinct | Min | Max

datatype join_on =
    OnColumns string string
  | OnValAndOn string string string expr

text \<open>
  The calls the source makes on a builder. \<open>dbQuery[logical].m(...)\<close> is the call \<open>m\<close> with
  the accessor \<open>and\<close> or \<open>or\<close> as its first argument; a call made without an accessor is
  recorded with \<open>And\<close>, the accessor that changes nothing. \<open>LeftJoin alias table on\<close> is
  \<open>leftJoin({[alias]: table}, ...)\<close>, with two columns or with the callback
  \<open>onVal(column, '=', value).andOn(column, '=', raw)\<close>; \<open>Aggregate f column name\<close> is
  \<open>f(column, {as: name})\<close>; \<open>WhereNot\<close> and \<open>WhereNotLike\<close> are \<open>whereNot\<close> with two and with
  three arguments; \<open>WhereInSub\<close> and \<open>WhereNotInSub\<close> are \<open>whereIn\<close> and \<open>whereNotIn\<close> with
  a callback, given as the calls the callback makes on its builder; \<open>AndWhere\<close> is
  \<open>andWhere\<close> with a callback, likewise.
\<close>

datatype call =
    LeftJoin string string join_on
  | OrderBy "(order \<times> expr) list"
  | Limit int
  | Offset int
  | GroupBy "expr list"
  | Aggregate agg_fn expr string
  | Select string string
  | From string
  | WhereNull logical expr
  | WhereNotNull logical expr
  | AndWhere logical "call list"
  | Where logical expr string json
  | WhereNot logical expr json
  | WhereNotLike logical expr json
  | WhereRaw logical expr
  | WhereIn logical expr json
  | WhereNotIn logical expr json
  | WhereInSub logical expr "call list"
  | WhereNotInSub logical expr "call list"
  | WhereBetween logical expr json
  | WhereNotBetween logical expr json
  | OrWhereRaw string "expr list"
  | OrWhere string json

type_synonym builder = "call list"

subsection \<open>\<open>applyAggregate\<close> (lines 681--727)\<close>

text \<open>An \<open>Aggregate\<close> object: operation name to field list, \<open>None\<close> for a key whose value
  is \<open>undefined\<close>.\<close>

type_synonym aggregate = "(string \<times> string list option) list"

definition column_of :: "string \<Rightarrow> string \<Rightarrow> string" where
  "column_of collection field = collection @ ''.'' @ field"

text \<open>The body of the inner loop: nine \<open>if\<close> statements in sequence.\<close>

definition applyAggregate_field :: "string \<Rightarrow> string \<Rightarrow> builder \<Rightarrow> string \<Rightarrow> builder" where
  "applyAggregate_field collection operation dbQuery field =
     (let q1 = (if operation = ''avg''
                then dbQuery @ [Aggregate Avg (Ident (column_of collection field)) (''avg->'' @ field)]
                else dbQuery);
          q2 = (if operation = ''avgDistinct''
                then q1 @ [Aggregate AvgDistinct (Ident (column_of collection field)) (''avgDistinct->'' @ field)]
                else q1);
          q3 = (if operation = ''countAll''
                then q2 @ [Aggregate Count (Ident ''*'') ''countAll'']
                else q2);
          q4 = (if operation = ''count''
                then (if field = ''*''
                      then q3 @ [Aggregate Count (Ident ''*'') ''count'']
                      else q3 @ [Aggregate Count (Ident (column_of collection field)) (''count->'' @ field)])
                else q3);
          q5 = (if operation = ''countDistinct''
                then q4 @ [Aggregate CountDistinct (Ident (column_of collection field)) (''countDistinct->'' @ field)]
                else q4);
          q6 = (if operation = ''sum''
                then q5 @ [Aggregate Sum (Ident (column_of collection field)) (''sum->'' @ field)]
                else q5);
          q7 = (if operation = ''sumDistinct''
                then q6 @ [Aggregate SumDistinct (Ident (column_of collection field)) (''sumDistinct->'' @ field)]
                else q6);
          q8 = (if operation = ''min''
                then q7 @ [Aggregate Min (Ident (column_of collection field)) (''min->'' @ field)]
                else q7);
          q9 = (if operation = ''max''
                then q8 @ [Aggregate Max (Ident (column_of collection field)) (''max->'' @ field)]
                else q8)
      in q9)"

fun applyAggregate :: "builder \<Rightarrow> aggregate \<Rightarrow> string \<Rightarrow> builder" where
  "applyAggregate dbQuery [] collection = dbQuery"
| "applyAggregate dbQuery ((operation, None) # rest) collection =
     applyAggregate dbQuery rest collection"
| "applyAggregate dbQuery ((operation, Some fields) # rest) collection =
     applyAggregate (foldl (applyAggregate_field collection operation) dbQuery fields) rest collection"

text \<open>The operations of the \<open>Aggregate\<close> type.\<close>

definition aggregate_operations :: "string list" where
  "aggregate_operations =
     [''avg'', ''avgDistinct'', ''count'', ''countAll'', ''countDistinct'',
      ''sum'', ''sumDistinct'', ''min'', ''max'']"

text \<open>The output names, read off the projections of a builder.\<close>

fun projection_names :: "builder \<Rightarrow> string list" where
  "projection_names [] = []"
| "projection_names (Aggregate f c n # cs) = n # projection_names cs"
| "projection_names (c # cs) = projection_names cs"

text \<open>The naming scheme the code follows: the operation and the field joined by \<open>->\<close>.\<close>

definition aggregate_alias :: "string \<Rightarrow> string \<Rightarrow> string" where
  "aggregate_alias operation field =
     (if operation = ''countAll'' then ''countAll''
      else if operation = ''count'' \<and> field = ''*'' then ''count''
      else operation @ ''->'' @ field)"

fun aggregate_pairs :: "aggregate \<Rightarrow> (string \<times> string) list" where
  "aggregate_pairs [] = []"
| "aggregate_pairs ((operation, None) # rest) = aggregate_pairs rest"
| "aggregate_pairs ((operation, Some fields) # rest) =
     map (Pair operation) fields @ aggregate_pairs rest"

fun join_with :: "string \<Rightarrow> string list \<Rightarrow> string" where
  "join_with sep [] = []"
| "join_with sep [x] = x"
| "join_with sep (x # y # ys) = x @ sep @ join_with sep (y # ys)"

fun js_toString :: "json \<Rightarrow> string" where
  "js_toString JUndefined = ''undefined''"
| "js_toString JNull = ''null''"
| "js_toString (JBool b) = (if b then ''true'' else ''false'')"
| "js_toString (JNum (Finite i)) = string_of_int i"
| "js_toString (JNum NaN) = ''NaN''"
| "js_toString (JStr s) = s"
| "js_toString (JArr xs) =
     join_with '','' (map (\<lambda>x. if x = JNull \<or> x = JUndefined then [] else js_toString x) xs)"
| "js_toString (JObj es) = ''[object Object]''"

subsection \<open>The schema and the imported helpers\<close>

text \<open>
  Of a \<open>Relation\<close>, a collection and a field the source reads the properties below.
  \<open>related_collection\<close>, \<open>meta\<close> and \<open>one_collection_field\<close> may be \<open>null\<close>; the
  schema accessors return \<open>None\<close> for what they do not know.
\<close>

record relation_meta =
  one_collection_field :: "string option"

record relation =
  rel_collection :: string
  rel_field :: string
  rel_related_collection :: "string option"
  rel_meta :: "relation_meta option"

datatype relation_type = M2O | O2M | A2O | O2A

record collection_info =
  primary :: string

record field_info =
  field_type :: string
  field_special :: "string list"

text \<open>The alias map is a nested object: \<open>set\<close> stores an alias under a path of keys.\<close>

datatype amap = Alias string | Aliases "(string \<times> amap) list"

text \<open>
  The environment: line 24 (\<open>generateAlias\<close>), the schema (\<open>getRelations\<close>,
  \<open>getCollection\<close>, \<open>getField\<close>, \<open>getFields\<close>), the imports of lines 14--21, the helpers
  of line 296 (\<open>helpers.date.parse\<close>, \<open>helpers.st\<close>), and the built-ins \<open>Number\<close> and
  \<open>String.prototype.toLowerCase\<close>. \<open>getColumn\<close> is called with \<open>alias = false\<close>
  throughout; its second argument is \<open>None\<close> where the source passes \<open>undefined\<close>.
\<close>

record env =
  generateAlias :: "nat \<Rightarrow> string"
  getRelations :: "relation list"
  getRelationInfo :: "relation list \<Rightarrow> string \<Rightarrow> string \<Rightarrow> relation option \<times> relation_type option"
  getCollection :: "string option \<Rightarrow> collection_info option"
  getField :: "string \<Rightarrow> string \<Rightarrow> field_info option"
  getFields :: "string \<Rightarrow> (string \<times> field_info) list"
  getColumn :: "string \<Rightarrow> string option \<Rightarrow> error + expr"
  getColumnPath :: "string list \<Rightarrow> string \<Rightarrow> amap \<Rightarrow> relation list \<Rightarrow> error + string \<times> string"
  stripFunction :: "string \<Rightarrow> string"
  getFilterOperatorsForType :: "string \<Rightarrow> string list"
  getOutputTypeForFunction :: "string \<Rightarrow> string"
  js_Number :: "json \<Rightarrow> number"
  toLowerCase :: "string \<Rightarrow> string"
  date_parse :: "json \<Rightarrow> json"
  st_intersects :: "string \<Rightarrow> json \<Rightarrow> expr"
  st_nintersects :: "string \<Rightarrow> json \<Rightarrow> expr"
  st_intersects_bbox :: "string \<Rightarrow> json \<Rightarrow> expr"
  st_nintersects_bbox :: "string \<Rightarrow> json \<Rightarrow> expr"
  uuid_validate :: "string \<Rightarrow> bool"

text \<open>\<open>getFilterPath\<close> (lines 729--741) and \<open>getOperation\<close> (lines 743--751). Both recurse
  on the first entry of a plain object; on the empty object the recursive call receives
  \<open>undefined\<close> and throws.\<close>

fun getFilterPath :: "string \<Rightarrow> json \<Rightarrow> error + string list" where
  "getFilterPath key value =
     (case object_keys value of
        Inl e \<Rightarrow> Inl e
      | Inr ks \<Rightarrow>
          if (case ks of [] \<Rightarrow> False | k # _ \<Rightarrow> startsWith k ''_'') then Inr [key]
          else (case value of
                  JObj [] \<Rightarrow> Inl TypeError
                | JObj ((k, v) # _) \<Rightarrow>
                    (case getFilterPath k v of Inl e \<Rightarrow> Inl e | Inr rest \<Rightarrow> Inr (key # rest))
                | _ \<Rightarrow> Inr [key]))"

declare getFilterPath.simps [simp del]

fun getOperation :: "string \<Rightarrow> json \<Rightarrow> error + string \<times> json" where
  "getOperation key value =
     (if startsWith key ''_'' \<and> key \<noteq> ''_and'' \<and> key \<noteq> ''_or'' then Inr (key, value)
      else if \<not> isPlainObject value then Inr (''_eq'', value)
      else (case value of
              JObj ((k, v) # _) \<Rightarrow> getOperation k v
            | _ \<Rightarrow> Inl TypeError))"

declare getOperation.simps [simp del]

subsection \<open>The alias map and lodash \<open>set\<close>\<close>

fun assign :: "string \<Rightarrow> 'v \<Rightarrow> (string \<times> 'v) list \<Rightarrow> (string \<times> 'v) list" where
  "assign k v [] = [(k, v)]"
| "assign k v ((k', v') # es) = (if k' = k then (k, v) # es else (k', v') # assign k v es)"

fun lookup :: "string \<Rightarrow> (string \<times> 'v) list \<Rightarrow> 'v option" where
  "lookup k [] = None"
| "lookup k ((k', v') # es) = (if k' = k then Some v' else lookup k es)"

text \<open>\<open>set(object, path, value)\<close>: walks the keys of \<open>path\<close>, replaces whatever is not an
  object on the way by a new object, and stores the value under the last key. (For a key
  that looks like an array index lodash creates an array instead of an object; property
  reads do not tell the two apart.)\<close>

fun entries_of :: "amap \<Rightarrow> (string \<times> amap) list" where
  "entries_of (Aliases es) = es"
| "entries_of (Alias a) = []"

fun set_path :: "(string \<times> amap) list \<Rightarrow> string list \<Rightarrow> string \<Rightarrow> (string \<times> amap) list" where
  "set_path es [] a = es"
| "set_path es [k] a = assign k (Alias a) es"
| "set_path es (k # k' # ks) a =
     assign k (Aliases (set_path (case lookup k es of Some m \<Rightarrow> entries_of m | None \<Rightarrow> []) (k' # ks) a)) es"

subsection \<open>\<open>addJoin\<close> (lines 124--227)\<close>

text \<open>What \<open>followRelation\<close> changes: the query, the alias map of its caller, and the
  position in the supply of aliases.\<close>

record state =
  rootQuery :: builder
  aliasMap :: "(string \<times> amap) list"
  aliasCount :: nat

definition scope_message :: string where
  "scope_message = ''You have to provide a collection scope when sorting or filtering on a many-to-any item''"

definition cast_char :: "string \<Rightarrow> expr" where
  "cast_char column = Raw ''CAST(?? AS CHAR(255))'' [Ident column]"

text \<open>\<open>parentAlias || parentCollection\<close>\<close>

fun alias_or :: "string option \<Rightarrow> string \<Rightarrow> string" where
  "alias_or None parentCollection = parentCollection"
| "alias_or (Some a) parentCollection = (if a = [] then parentCollection else a)"

text \<open>\<open>pathParts[0].split(':')[1]\<close>, \<open>None\<close> for \<open>undefined\<close>.\<close>

definition path_scope :: "string \<Rightarrow> string option" where
  "path_scope segment = (case split_on CHR '':'' segment of a # b # _ \<Rightarrow> Some b | _ \<Rightarrow> None)"

definition path_root :: "string \<Rightarrow> string" where
  "path_root segment = (case split_on CHR '':'' segment of a # _ \<Rightarrow> a | [] \<Rightarrow> [])"

definition leftJoin :: "state \<Rightarrow> string \<Rightarrow> string \<Rightarrow> join_on \<Rightarrow> state" where
  "leftJoin st alias table cond = st\<lparr>rootQuery := rootQuery st @ [LeftJoin alias table cond]\<rparr>"

text \<open>The four joins of lines 145--200. A property read on \<open>null\<close> (\<open>relation.meta!\<close>,
  \<open>collectionInfo!\<close>, \<open>relatedCollectionInfo!\<close>) throws.\<close>

definition join_m2o :: "string option \<Rightarrow> string \<Rightarrow> relation \<Rightarrow> string \<Rightarrow> collection_info option \<Rightarrow> state \<Rightarrow> error + state" where
  "join_m2o parentAlias parentCollection relation alias relatedCollectionInfo st =
     (case rel_related_collection relation of
        None \<Rightarrow> Inl IllTyped
      | Some related \<Rightarrow>
          (case relatedCollectionInfo of
             None \<Rightarrow> Inl TypeError
           | Some info \<Rightarrow>
               Inr (leftJoin st alias related
                      (OnColumns (column_of (alias_or parentAlias parentCollection) (rel_field relation))
                                 (column_of alias (primary info))))))"

definition join_a2o :: "env \<Rightarrow> string option \<Rightarrow> string \<Rightarrow> relation \<Rightarrow> string \<Rightarrow> string \<Rightarrow> state \<Rightarrow> error + state" where
  "join_a2o env parentAlias parentCollection relation alias segment st =
     (case path_scope segment of
        None \<Rightarrow> Inl (InvalidQueryException scope_message)
      | Some pathScope \<Rightarrow>
          if pathScope = [] then Inl (InvalidQueryException scope_message)
          else (case rel_meta relation of
                  None \<Rightarrow> Inl TypeError
                | Some meta \<Rightarrow>
                    (case one_collection_field meta of
                       None \<Rightarrow> Inl IllTyped
                     | Some discriminator \<Rightarrow>
                         (case getCollection env (Some pathScope) of
                            None \<Rightarrow> Inl TypeError
                          | Some collectionInfo \<Rightarrow>
                              Inr (leftJoin st alias pathScope
                                     (OnValAndOn discriminator pathScope
                                        (column_of (alias_or parentAlias parentCollection) (rel_field relation))
                                        (cast_char (column_of alias (primary collectionInfo)))))))))"

definition join_o2a :: "env \<Rightarrow> string option \<Rightarrow> string \<Rightarrow> relation \<Rightarrow> string \<Rightarrow> state \<Rightarrow> error + state" where
  "join_o2a env parentAlias parentCollection relation alias st =
     (case rel_meta relation of
        None \<Rightarrow> Inl TypeError
      | Some meta \<Rightarrow>
          (case one_collection_field meta of
             None \<Rightarrow> Inl IllTyped
           | Some discriminator \<Rightarrow>
               (case getCollection env (Some parentCollection) of
                  None \<Rightarrow> Inl TypeError
                | Some collectionInfo \<Rightarrow>
                    Inr (leftJoin st alias (rel_collection relation)
                           (OnValAndOn discriminator parentCollection
                              (column_of alias (rel_field relation))
                              (cast_char (column_of (alias_or parentAlias parentCollection)
                                                    (primary collectionInfo))))))))"

definition join_o2m :: "string option \<Rightarrow> string \<Rightarrow> relation \<Rightarrow> string \<Rightarrow> collection_info option \<Rightarrow> state \<Rightarrow> error + state" where
  "join_o2m parentAlias parentCollection relation alias relatedCollectionInfo st =
     (case relatedCollectionInfo of
        None \<Rightarrow> Inl TypeError
      | Some info \<Rightarrow>
          Inr (leftJoin st alias (rel_collection relation)
                 (OnColumns (column_of (alias_or parentAlias parentCollection) (primary info))
                            (column_of alias (rel_field relation)))))"

text \<open>The collection the next segment is resolved in (lines 203--219).\<close>

definition next_parent :: "relation \<Rightarrow> relation_type option \<Rightarrow> string \<Rightarrow> error + string" where
  "next_parent relation relationType segment =
     (if relationType = Some M2O then
        (case rel_related_collection relation of None \<Rightarrow> Inl IllTyped | Some related \<Rightarrow> Inr related)
      else if relationType = Some A2O then
        (case path_scope segment of
           None \<Rightarrow> Inl (InvalidQueryException scope_message)
         | Some pathScope \<Rightarrow>
             if pathScope = [] then Inl (InvalidQueryException scope_message) else Inr pathScope)
      else Inr (rel_collection relation))"

text \<open>\<open>followRelation\<close> (lines 128--226): \<open>pathParts\<close> is \<open>segment # rest\<close>, and
  \<open>pathParts.shift()\<close> leaves \<open>rest\<close>.\<close>

fun followRelation ::
  "env \<Rightarrow> bool \<Rightarrow> state \<Rightarrow> string list \<Rightarrow> string \<Rightarrow> string option \<Rightarrow> error + state" where
  "followRelation env subQuery st [] parentCollection parentAlias = Inl TypeError"
| "followRelation env subQuery st (segment # rest) parentCollection parentAlias =
     (case getRelationInfo env (getRelations env) parentCollection (path_root segment) of
        (None, relationType) \<Rightarrow> Inr st
      | (Some relation, relationType) \<Rightarrow>
          (let alias = generateAlias env (aliasCount st);
               relatedCollectionInfo = getCollection env (rel_related_collection relation);
               st0 = st\<lparr>aliasCount := Suc (aliasCount st),
                        aliasMap := set_path (aliasMap st)
                          (case parentAlias of
                             None \<Rightarrow> segment # rest
                           | Some a \<Rightarrow> if a = [] then segment # rest else a # segment # rest) alias\<rparr>
           in case (if relationType = Some M2O
                    then join_m2o parentAlias parentCollection relation alias relatedCollectionInfo st0
                    else Inr st0) of
                Inl e \<Rightarrow> Inl e
              | Inr st1 \<Rightarrow>
           (case (if relationType = Some A2O
                  then join_a2o env parentAlias parentCollection relation alias segment st1
                  else Inr st1) of
                Inl e \<Rightarrow> Inl e
              | Inr st2 \<Rightarrow>
           (case (if relationType = Some O2A
                  then join_o2a env parentAlias parentCollection relation alias st2
                  else Inr st2) of
                Inl e \<Rightarrow> Inl e
              | Inr st3 \<Rightarrow>
           (case (if relationType = Some O2M \<and> (subQuery \<or> parentAlias \<noteq> None)
                  then join_o2m parentAlias parentCollection relation alias relatedCollectionInfo st3
                  else Inr st3) of
                Inl e \<Rightarrow> Inl e
              | Inr st4 \<Rightarrow>
           if relationType = Some M2O \<or> subQuery \<or> (relationType = Some O2M \<and> parentAlias \<noteq> None)
           then (case next_parent relation relationType segment of
                   Inl e \<Rightarrow> Inl e
                 | Inr parent \<Rightarrow>
                     if rest \<noteq> [] then followRelation env subQuery st4 rest parent (Some alias)
                     else Inr st4)
           else Inr st4)))))"

declare followRelation.simps [simp del]

definition addJoin :: "env \<Rightarrow> bool \<Rightarrow> state \<Rightarrow> string list \<Rightarrow> string \<Rightarrow> error + state" where
  "addJoin env subQuery st path collection = followRelation env subQuery st path collection None"

subsection \<open>Loops that may throw\<close>

text \<open>\<open>for (const x of xs) { ... }\<close> over a state, stopping at the first exception.\<close>

fun for_of :: "'a list \<Rightarrow> ('s \<Rightarrow> 'a \<Rightarrow> error + 's) \<Rightarrow> 's \<Rightarrow> error + 's" where
  "for_of [] body s = Inr s"
| "for_of (x # xs) body s = (case body s x of Inl e \<Rightarrow> Inl e | Inr s' \<Rightarrow> for_of xs body s')"

lemma for_of_cong [fundef_cong]:
  assumes "xs = ys" and "s = t" and "\<And>x u. x \<in> set ys \<Longrightarrow> f u x = g u x"
  shows "for_of xs f s = for_of ys g t"
  using assms by (induction ys arbitrary: xs s t) (auto split: sum.splits)

subsection \<open>\<open>validateFilterOperator\<close> (lines 424--443)\<close>

definition type_message :: "string \<Rightarrow> string \<Rightarrow> string" where
  "type_message type filterOperator =
     ''\"'' @ type @ ''\" field type does not contain the \"_'' @ filterOperator @ ''\" filter operator''"

definition conceal_message :: "string \<Rightarrow> string" where
  "conceal_message filterOperator =
     ''Field with \"conceal\" special does not allow the \"_'' @ filterOperator @ ''\" filter operator''"

definition validateFilterOperator :: "env \<Rightarrow> string \<Rightarrow> string \<Rightarrow> string list \<Rightarrow> error + unit" where
  "validateFilterOperator env type filterOperator0 special =
     (let filterOperator = (if startsWith filterOperator0 ''_'' then drop 1 filterOperator0
                            else filterOperator0)
      in if \<not> js_includes (getFilterOperatorsForType env type) filterOperator
         then Inl (InvalidQueryException (type_message type filterOperator))
         else if js_includes special ''conceal'' \<and>
                 \<not> js_includes (getFilterOperatorsForType env ''hash'') filterOperator
         then Inl (InvalidQueryException (conceal_message filterOperator))
         else Inr ())"

subsection \<open>\<open>applyFilterToQuery\<close> (lines 445--655)\<close>

definition numeric_types :: "string list" where
  "numeric_types = [''bigInteger'', ''integer'', ''float'', ''decimal'']"

definition date_types :: "string list" where
  "date_types = [''date'', ''dateTime'', ''time'', ''timestamp'']"

text \<open>\<open>compareValue.toLowerCase()\<close>: only a string has the method.\<close>

fun lower :: "env \<Rightarrow> json \<Rightarrow> error + string" where
  "lower env (JStr s) = Inr (toLowerCase env s)"
| "lower env v = Inl TypeError"

text \<open>\<open>compareValue.length\<close>: a property read, which throws on \<open>null\<close> and \<open>undefined\<close>.\<close>

fun js_length :: "json \<Rightarrow> error + json" where
  "js_length JUndefined = Inl TypeError"
| "js_length JNull = Inl TypeError"
| "js_length (JStr s) = Inr (JNum (Finite (int (length s))))"
| "js_length (JArr xs) = Inr (JNum (Finite (int (length xs))))"
| "js_length (JObj es) = Inr (case lookup ''length'' es of None \<Rightarrow> JUndefined | Some v \<Rightarrow> v)"
| "js_length v = Inr JUndefined"

text \<open>\<open>if (typeof value === 'string') value = value.split(',')\<close>\<close>

fun split_if_string :: "json \<Rightarrow> json" where
  "split_if_string (JStr s) = JArr (map JStr (split_on CHR '','' s))"
| "split_if_string v = v"

text \<open>The coercions of lines 486--526, in the order of the source.\<close>

fun drop_undefined :: "json \<Rightarrow> json" where
  "drop_undefined (JArr xs) = JArr (filter (\<lambda>v. v \<noteq> JUndefined) xs)"
| "drop_undefined v = v"

definition cast_by_function :: "env \<Rightarrow> string \<Rightarrow> json \<Rightarrow> json" where
  "cast_by_function env column compareValue =
     (if js_includes column CHR ''('' \<and> js_includes column CHR '')''
      then (let functionName = (case split_on CHR ''('' column of a # _ \<Rightarrow> a | [] \<Rightarrow> []);
                type = getOutputTypeForFunction env functionName
            in if js_includes numeric_types type then JNum (js_Number env compareValue)
               else compareValue)
      else compareValue)"

fun map_or_apply :: "(json \<Rightarrow> json) \<Rightarrow> json \<Rightarrow> json" where
  "map_or_apply f (JArr xs) = JArr (map f xs)"
| "map_or_apply f v = f v"

definition cast_by_type :: "env \<Rightarrow> field_info option \<Rightarrow> json \<Rightarrow> json" where
  "cast_by_type env fieldInfo compareValue =
     (case fieldInfo of
        None \<Rightarrow> compareValue
      | Some info \<Rightarrow>
          (let v1 = (if js_includes date_types (field_type info)
                     then map_or_apply (date_parse env) compareValue else compareValue);
               v2 = (if js_includes numeric_types (field_type info)
                     then map_or_apply (\<lambda>val. JNum (js_Number env val)) v1 else v1)
           in v2))"

text \<open>One \<open>if (operator === ...) dbQuery[logical]. ...\<close> statement: the call is made when
  the guard holds.\<close>

definition on_operator :: "bool \<Rightarrow> call \<Rightarrow> builder \<Rightarrow> error + builder" where
  "on_operator guard c dbQuery = Inr (if guard then dbQuery @ [c] else dbQuery)"

text \<open>The same for the case-insensitive operators, whose call lower-cases the value first.\<close>

definition on_operator_lower ::
  "env \<Rightarrow> bool \<Rightarrow> json \<Rightarrow> (string \<Rightarrow> call) \<Rightarrow> builder \<Rightarrow> error + builder" where
  "on_operator_lower env guard compareValue c dbQuery =
     (if guard then (case lower env compareValue of
                       Inl e \<Rightarrow> Inl e
                     | Inr s \<Rightarrow> Inr (dbQuery @ [c s]))
      else Inr dbQuery)"

definition run_steps :: "(builder \<Rightarrow> error + builder) list \<Rightarrow> builder \<Rightarrow> error + builder" where
  "run_steps steps dbQuery = for_of steps (\<lambda>q step. step q) dbQuery"

text \<open>Lines 461--479: the operators that need no value.\<close>

definition null_steps :: "logical \<Rightarrow> string \<Rightarrow> expr \<Rightarrow> string \<Rightarrow> json \<Rightarrow> (builder \<Rightarrow> error + builder) list" where
  "null_steps logical key selectionRaw operator compareValue =
     [on_operator (operator = ''_null'' \<or> (operator = ''_nnull'' \<and> compareValue = JBool False))
        (WhereNull logical selectionRaw),
      on_operator (operator = ''_nnull'' \<or> (operator = ''_null'' \<and> compareValue = JBool False))
        (WhereNotNull logical selectionRaw),
      on_operator (operator = ''_empty'' \<or> (operator = ''_nempty'' \<and> compareValue = JBool False))
        (AndWhere logical [Where And (Ident key) ''='' (JStr [])]),
      on_operator (operator = ''_nempty'' \<or> (operator = ''_empty'' \<and> compareValue = JBool False))
        (AndWhere logical [Where And (Ident key) ''!='' (JStr [])])]"

text \<open>Lines 528--620: \<open>_eq\<close> to \<open>_nin\<close>.\<close>

definition value_steps :: "env \<Rightarrow> logical \<Rightarrow> string \<Rightarrow> expr \<Rightarrow> string \<Rightarrow> json \<Rightarrow> (builder \<Rightarrow> error + builder) list" where
  "value_steps env logical key selectionRaw operator compareValue =
     [on_operator (operator = ''_eq'') (Where logical selectionRaw ''='' compareValue),
      on_operator (operator = ''_neq'') (WhereNot logical selectionRaw compareValue),
      on_operator_lower env (operator = ''_ieq'') compareValue
        (\<lambda>s. WhereRaw logical (Raw ''LOWER(??) = ?'' [selectionRaw, Text s])),
      on_operator_lower env (operator = ''_nieq'') compareValue
        (\<lambda>s. WhereRaw logical (Raw ''LOWER(??) <> ?'' [selectionRaw, Text s])),
      on_operator (operator = ''_contains'')
        (Where logical selectionRaw ''like'' (JStr (''%'' @ js_toString compareValue @ ''%''))),
      on_operator (operator = ''_ncontains'')
        (WhereNotLike logical selectionRaw (JStr (''%'' @ js_toString compareValue @ ''%''))),
      on_operator_lower env (operator = ''_icontains'') compareValue
        (\<lambda>s. WhereRaw logical (Raw ''LOWER(??) LIKE ?'' [selectionRaw, Text (''%'' @ s @ ''%'')])),
      on_operator_lower env (operator = ''_nicontains'') compareValue
        (\<lambda>s. WhereRaw logical (Raw ''LOWER(??) NOT LIKE ?'' [selectionRaw, Text (''%'' @ s @ ''%'')])),
      on_operator (operator = ''_starts_with'')
        (Where logical (Ident key) ''like'' (JStr (js_toString compareValue @ ''%''))),
      on_operator (operator = ''_nstarts_with'')
        (WhereNotLike logical (Ident key) (JStr (js_toString compareValue @ ''%''))),
      on_operator_lower env (operator = ''_istarts_with'') compareValue
        (\<lambda>s. WhereRaw logical (Raw ''LOWER(??) LIKE ?'' [selectionRaw, Text (s @ ''%'')])),
      on_operator_lower env (operator = ''_nistarts_with'') compareValue
        (\<lambda>s. WhereRaw logical (Raw ''LOWER(??) NOT LIKE ?'' [selectionRaw, Text (s @ ''%'')])),
      on_operator (operator = ''_ends_with'')
        (Where logical (Ident key) ''like'' (JStr (''%'' @ js_toString compareValue))),
      on_operator (operator = ''_nends_with'')
        (WhereNotLike logical (Ident key) (JStr (''%'' @ js_toString compareValue))),
      on_operator_lower env (operator = ''_iends_with'') compareValue
        (\<lambda>s. WhereRaw logical (Raw ''LOWER(??) LIKE ?'' [selectionRaw, Text (''%'' @ s)])),
      on_operator_lower env (operator = ''_niends_with'') compareValue
        (\<lambda>s. WhereRaw logical (Raw ''LOWER(??) NOT LIKE ?'' [selectionRaw, Text (''%'' @ s)])),
      on_operator (operator = ''_gt'') (Where logical selectionRaw ''>'' compareValue),
      on_operator (operator = ''_gte'') (Where logical selectionRaw ''>='' compareValue),
      on_operator (operator = ''_lt'') (Where logical selectionRaw ''<'' compareValue),
      on_operator (operator = ''_lte'') (Where logical selectionRaw ''<='' compareValue),
      on_operator (operator = ''_in'') (WhereIn logical selectionRaw (split_if_string compareValue)),
      on_operator (operator = ''_nin'') (WhereNotIn logical selectionRaw (split_if_string compareValue))]"

text \<open>Lines 640--654: the spatial operators.\<close>

definition spatial_steps :: "env \<Rightarrow> logical \<Rightarrow> string \<Rightarrow> string \<Rightarrow> json \<Rightarrow> (builder \<Rightarrow> error + builder) list" where
  "spatial_steps env logical key operator compareValue =
     [on_operator (operator = ''_intersects'') (WhereRaw logical (st_intersects env key compareValue)),
      on_operator (operator = ''_nintersects'') (WhereRaw logical (st_nintersects env key compareValue)),
      on_operator (operator = ''_intersects_bbox'')
        (WhereRaw logical (st_intersects_bbox env key compareValue)),
      on_operator (operator = ''_nintersects_bbox'')
        (WhereRaw logical (st_nintersects_bbox env key compareValue))]"

text \<open>Lines 622--638: \<open>_between\<close> and \<open>_nbetween\<close> return from the function when the length of
  the value is not 2, before the value is split; \<open>rest\<close> is what follows the statement.\<close>

definition between_step ::
  "bool \<Rightarrow> json \<Rightarrow> (json \<Rightarrow> call) \<Rightarrow> (builder \<Rightarrow> error + builder) \<Rightarrow> builder \<Rightarrow> error + builder" where
  "between_step guard compareValue c rest dbQuery =
     (if guard then
        (case js_length compareValue of
           Inl e \<Rightarrow> Inl e
         | Inr n \<Rightarrow> if n \<noteq> JNum (Finite 2) then Inr dbQuery
                    else rest (dbQuery @ [c (split_if_string compareValue)]))
      else rest dbQuery)"

definition applyFilterToQuery ::
  "env \<Rightarrow> builder \<Rightarrow> string \<Rightarrow> string \<Rightarrow> json \<Rightarrow> logical \<Rightarrow> string option \<Rightarrow> error + builder" where
  "applyFilterToQuery env dbQuery key operator compareValue0 logical originalCollectionName =
     (let parts = split_on CHR ''.'' key;
          table = (case parts of t # _ \<Rightarrow> t | [] \<Rightarrow> []);
          column = (case parts of t # c # _ \<Rightarrow> Some c | _ \<Rightarrow> None)
      in case getColumn env table column of
           Inl e \<Rightarrow> Inl e
         | Inr selectionRaw \<Rightarrow>
      (case run_steps (null_steps logical key selectionRaw operator compareValue0) dbQuery of
           Inl e \<Rightarrow> Inl e
         | Inr q1 \<Rightarrow>
      if compareValue0 = JUndefined then Inr q1
      else (case column of
              None \<Rightarrow> Inl TypeError
            | Some col \<Rightarrow>
      (let compareValue1 = drop_undefined compareValue0;
           compareValue2 = cast_by_function env col compareValue1;
           mappedCollection = (case originalCollectionName of
                                 None \<Rightarrow> table
                               | Some c \<Rightarrow> if c = [] then table else c);
           fieldInfo = getField env mappedCollection col;
           compareValue = cast_by_type env fieldInfo compareValue2
       in case run_steps (value_steps env logical key selectionRaw operator compareValue) q1 of
            Inl e \<Rightarrow> Inl e
          | Inr q2 \<Rightarrow>
              between_step (operator = ''_between'') compareValue (WhereBetween logical selectionRaw)
                (between_step (operator = ''_nbetween'') compareValue (WhereNotBetween logical selectionRaw)
                   (run_steps (spatial_steps env logical key operator compareValue)))
                q2))))"

subsection \<open>\<open>applySort\<close> (lines 229--286)\<close>

definition strip_minus :: "string \<Rightarrow> string" where
  "strip_minus s = (if startsWith s ''-'' then drop 1 s else s)"

text \<open>The iteratee of \<open>map(rootSort, ...)\<close> for one sort field, run on the fields in
  order; the state carries the entries mapped so far. \<open>addJoin\<close> works on a clone of
  \<open>column\<close>, so \<open>getColumnPath\<close> sees the whole path.\<close>

definition applySort_field ::
  "env \<Rightarrow> string \<Rightarrow> bool \<Rightarrow> state \<times> (order \<times> expr) list \<Rightarrow> string \<Rightarrow> error + state \<times> (order \<times> expr) list" where
  "applySort_field env collection subQuery acc sortField =
     (let st = fst acc; mapped = snd acc; column = split_on CHR ''.'' sortField
      in if length column > 1 then
           (let order = (if startsWith sortField ''-'' then Desc else Asc);
                path = (case column of c # cs \<Rightarrow> strip_minus c # cs | [] \<Rightarrow> [])
            in case addJoin env subQuery st path collection of
                 Inl e \<Rightarrow> Inl e
               | Inr st1 \<Rightarrow>
            (case getColumnPath env path collection (Aliases (aliasMap st1)) (getRelations env) of
                 Inl e \<Rightarrow> Inl e
               | Inr (columnPath, targetCollection) \<Rightarrow>
            (let parts = split_on CHR ''.'' columnPath;
                 alias = (case parts of a # _ \<Rightarrow> a | [] \<Rightarrow> []);
                 field = (case parts of a # f # _ \<Rightarrow> Some f | _ \<Rightarrow> None)
             in case getColumn env alias field of
                  Inl e \<Rightarrow> Inl e
                | Inr c \<Rightarrow> Inr (st1, mapped @ [(order, c)]))))
         else
           (let col = (case column of c # _ \<Rightarrow> strip_minus c | [] \<Rightarrow> []);
                order = (if startsWith sortField ''-'' then Desc else Asc)
            in case getColumn env collection (Some col) of
                 Inl e \<Rightarrow> Inl e
               | Inr c \<Rightarrow> Inr (st, mapped @ [(order, c)])))"

definition applySort ::
  "env \<Rightarrow> builder \<times> nat \<Rightarrow> string list \<Rightarrow> string \<Rightarrow> bool \<Rightarrow> error + builder \<times> nat" where
  "applySort env target rootSort collection subQuery =
     (case for_of rootSort (applySort_field env collection subQuery)
             (\<lparr>rootQuery = fst target, aliasMap = [], aliasCount = snd target\<rparr>, []) of
        Inl e \<Rightarrow> Inl e
      | Inr (st, mapped) \<Rightarrow> Inr (rootQuery st @ [OrderBy mapped], aliasCount st))"

subsection \<open>\<open>applySearch\<close> (lines 659--679)\<close>

definition text_types :: "string list" where
  "text_types = [''text'', ''string'']"

definition search_numeric_types :: "string list" where
  "search_numeric_types = [''bigInteger'', ''integer'', ''decimal'', ''float'']"

text \<open>The callback of \<open>fields.forEach\<close>, on the builder \<open>this\<close> of the group.\<close>

definition applySearch_field :: "env \<Rightarrow> string \<Rightarrow> string \<Rightarrow> builder \<Rightarrow> string \<times> field_info \<Rightarrow> builder" where
  "applySearch_field env searchQuery collection this entry =
     (let name = fst entry; field = snd entry
      in if js_includes text_types (field_type field) then
           this @ [OrWhereRaw ''LOWER(??) LIKE ?''
                     [Ident (column_of collection name), Text (''%'' @ toLowerCase env searchQuery @ ''%'')]]
         else if js_includes search_numeric_types (field_type field) then
           (let number = js_Number env (JStr searchQuery)
            in if number \<noteq> NaN then this @ [OrWhere (column_of collection name) (JNum number)]
               else this)
         else if field_type field = ''uuid'' \<and> uuid_validate env searchQuery then
           this @ [OrWhere (column_of collection name) (JStr searchQuery)]
         else this)"

definition applySearch :: "env \<Rightarrow> builder \<Rightarrow> string \<Rightarrow> string \<Rightarrow> builder" where
  "applySearch env dbQuery searchQuery collection =
     dbQuery @ [AndWhere And (foldl (applySearch_field env searchQuery collection) [] (getFields env collection))]"

subsection \<open>\<open>applyFilter\<close> (lines 288--657) and \<open>applyQuery\<close> (lines 29--72)\<close>

text \<open>
  \<open>Object.entries(filter)\<close>. A primitive string in the place of a filter is outside the
  \<open>Filter\<close> type and outside the embedding (the characters of a string are strings again;
  the source would not terminate on a schema that declares a to-many relation named \<open>0\<close>).
\<close>

fun filter_entries :: "json \<Rightarrow> error + (string \<times> json) list" where
  "filter_entries JUndefined = Inl TypeError"
| "filter_entries JNull = Inl TypeError"
| "filter_entries (JBool b) = Inr []"
| "filter_entries (JNum n) = Inr []"
| "filter_entries (JStr s) = (if s = [] then Inr [] else Inl IllTyped)"
| "filter_entries (JArr xs) = Inr (zip (index_keys 0 (length xs)) xs)"
| "filter_entries (JObj es) = Inr es"

text \<open>\<open>value.some((subFilter) => Object.keys(subFilter).length === 0)\<close>: only an array has
  the method.\<close>

fun some_empty :: "json list \<Rightarrow> error + bool" where
  "some_empty [] = Inr False"
| "some_empty (x # xs) =
     (case object_keys x of
        Inl e \<Rightarrow> Inl e
      | Inr ks \<Rightarrow> if length ks = 0 then Inr True else some_empty xs)"

fun array_some_empty :: "json \<Rightarrow> error + bool" where
  "array_some_empty (JArr xs) = some_empty xs"
| "array_some_empty v = Inl TypeError"

text \<open>What \<open>for (const subFilter of value)\<close> iterates over.\<close>

fun js_iterate :: "json \<Rightarrow> error + json list" where
  "js_iterate (JArr xs) = Inr xs"
| "js_iterate (JStr s) = Inr (map (\<lambda>c. JStr [c]) s)"
| "js_iterate v = Inl TypeError"

lemma size_json_member: "x \<in> set xs \<Longrightarrow> size x < Suc (size_list size xs)"
  by (induction xs) auto

lemma size_json_entry: "(k, v) \<in> set es \<Longrightarrow> size v < Suc (size_list (size_prod (\<lambda>x. 0) size) es)"
  by (induction es) auto

lemma filter_entries_size:
  assumes "filter_entries f = Inr es" and "(k, v) \<in> set es"
  shows "size (v::json) < size f"
proof (cases f)
  case (JArr xs)
  then have "v \<in> set xs"
    using assms by (auto dest: set_zip_rightD)
  then show ?thesis
    using JArr size_json_member by simp
next
  case (JObj es')
  then show ?thesis
    using assms size_json_entry by simp
qed (use assms in \<open>auto split: if_splits\<close>)

lemma js_iterate_size:
  assumes "js_iterate v = Inr gs" and "g \<in> set gs"
  shows "size (g::json) \<le> size v"
proof (cases v)
  case (JArr xs)
  then show ?thesis
    using assms size_json_member [of g xs] by simp
qed (use assms in auto)

lemma sub_filter_size:
  assumes "filter_entries fltr = Inr es" and "entry \<in> set es"
    and "js_iterate (snd entry) = Inr subFilters" and "subFilter \<in> set subFilters"
  shows "size (subFilter::json) < size fltr"
proof -
  have "size (snd entry) < size fltr"
    using assms(1,2) filter_entries_size [of fltr es "fst entry" "snd entry"] by simp
  moreover have "size subFilter \<le> size (snd entry)"
    using assms(3,4) js_iterate_size by simp
  ultimately show ?thesis by simp
qed

text \<open>\<open>addJoins\<close> (lines 306--335).\<close>

function addJoins :: "env \<Rightarrow> bool \<Rightarrow> string \<Rightarrow> state \<Rightarrow> json \<Rightarrow> error + state" where
  "addJoins env subQuery collection st fltr =
     (case filter_entries fltr of
        Inl e \<Rightarrow> Inl e
      | Inr es \<Rightarrow>
          for_of es
            (\<lambda>st entry.
               if fst entry = ''_or'' \<or> fst entry = ''_and'' then
                 (case (if fst entry = ''_or'' then array_some_empty (snd entry) else Inr False) of
                    Inl e \<Rightarrow> Inl e
                  | Inr skip \<Rightarrow>
                      if skip then Inr st
                      else (case js_iterate (snd entry) of
                              Inl e \<Rightarrow> Inl e
                            | Inr subFilters \<Rightarrow>
                                for_of subFilters
                                  (\<lambda>st subFilter. addJoins env subQuery collection st subFilter)
                                  st))
               else
                 (case getFilterPath (fst entry) (snd entry) of
                    Inl e \<Rightarrow> Inl e
                  | Inr filterPath \<Rightarrow>
                      if length filterPath > 1
                      then addJoin env subQuery st filterPath collection
                      else Inr st))
            st)"
  by pat_completeness auto
termination
  by (relation "measure (\<lambda>(env, subQuery, collection, st, fltr). size fltr)")
    (auto intro: sub_filter_size)

record query =
  q_sort :: "string list option"
  q_limit :: "int option"
  q_offset :: "int option"
  q_page :: "int option"
  q_search :: "string option"
  q_group :: "string list option"
  q_aggregate :: "aggregate option"
  q_filter :: json

text \<open>The query \<open>{ filter }\<close> of line 410.\<close>

definition filter_query :: "json \<Rightarrow> query" where
  "filter_query fltr =
     \<lparr>q_sort = None, q_limit = None, q_offset = None, q_page = None, q_search = None,
      q_group = None, q_aggregate = None, q_filter = fltr\<rparr>"

text \<open>Lines 57--61 (\<open>group\<close>) and 41--51 (\<open>limit\<close>, \<open>offset\<close>, \<open>page\<close>) of \<open>applyQuery\<close>.
  A property of the query that is \<open>undefined\<close> or \<open>null\<close> is \<open>None\<close>; \<open>limit\<close>, \<open>offset\<close>
  and \<open>page\<close> are integers.\<close>

definition apply_group :: "env \<Rightarrow> string \<Rightarrow> builder \<Rightarrow> string list \<Rightarrow> error + builder" where
  "apply_group env collection dbQuery columns =
     (case for_of columns
             (\<lambda>mapped column. case getColumn env collection (Some column) of
                                  Inl e \<Rightarrow> Inl e
                                | Inr c \<Rightarrow> Inr (mapped @ [c])) [] of
        Inl e \<Rightarrow> Inl e
      | Inr mapped \<Rightarrow> Inr (dbQuery @ [GroupBy mapped]))"

definition apply_paging :: "query \<Rightarrow> builder \<Rightarrow> builder" where
  "apply_paging query dbQuery =
     (let q1 = (case q_limit query of
                  Some limit \<Rightarrow> if limit \<noteq> - 1 then dbQuery @ [Limit limit] else dbQuery
                | None \<Rightarrow> dbQuery);
          q2 = (case q_offset query of
                  Some offset \<Rightarrow> if offset \<noteq> 0 then q1 @ [Offset offset] else q1
                | None \<Rightarrow> q1);
          q3 = (case (q_page query, q_limit query) of
                  (Some page, Some limit) \<Rightarrow>
                    if page \<noteq> 0 \<and> limit \<noteq> 0 \<and> limit \<noteq> - 1
                    then q2 @ [Offset (limit * (page - 1))] else q2
                | _ \<Rightarrow> q2)
      in q3)"

text \<open>The existential subquery of lines 400--420: what the callback does to the builder
  Knex hands it, before \<open>applyQuery\<close> is called on it.\<close>

definition subquery_base :: "relation \<Rightarrow> builder" where
  "subquery_base relation =
     (let field = rel_field relation;
          collection = rel_collection relation;
          column = column_of collection field
      in [Select field column, From collection, WhereNotNull And (Ident column)])"

text \<open>Lines 371--388: the predicate of a leaf on a scalar, m2o or a2o path.\<close>

definition where_leaf ::
  "env \<Rightarrow> string \<Rightarrow> logical \<Rightarrow> state \<Rightarrow> string list \<Rightarrow> string \<Rightarrow> json \<Rightarrow> error + state" where
  "where_leaf env collection logical st filterPath filterOperator filterValue =
     (if length filterPath > 1 then
        (case getColumnPath env filterPath collection (Aliases (aliasMap st)) (getRelations env) of
           Inl e \<Rightarrow> Inl e
         | Inr (columnPath, targetCollection) \<Rightarrow>
             if columnPath = [] then Inr st
             else (case getField env targetCollection (stripFunction env (last filterPath)) of
                     None \<Rightarrow> Inl TypeError
                   | Some field \<Rightarrow>
                       (case validateFilterOperator env (field_type field) filterOperator
                               (field_special field) of
                          Inl e \<Rightarrow> Inl e
                        | Inr u \<Rightarrow>
                            (case applyFilterToQuery env (rootQuery st) columnPath filterOperator
                                    filterValue logical (Some targetCollection) of
                               Inl e \<Rightarrow> Inl e
                             | Inr q \<Rightarrow> Inr (st\<lparr>rootQuery := q\<rparr>)))))
      else
        (case filterPath of
           [] \<Rightarrow> Inl TypeError
         | segment # others \<Rightarrow>
             (case getField env collection (stripFunction env segment) of
                None \<Rightarrow> Inl TypeError
              | Some field \<Rightarrow>
                  (case validateFilterOperator env (field_type field) filterOperator
                          (field_special field) of
                     Inl e \<Rightarrow> Inl e
                   | Inr u \<Rightarrow>
                       (case applyFilterToQuery env (rootQuery st) (column_of collection segment)
                               filterOperator filterValue logical None of
                          Inl e \<Rightarrow> Inl e
                        | Inr q \<Rightarrow> Inr (st\<lparr>rootQuery := q\<rparr>))))))"

text \<open>Lines 414--420: the sentinel key of the value decides between \<open>whereNotIn\<close> and
  \<open>whereIn\<close>, and whether the sub-filter is the value under the sentinel or the value.\<close>

definition first_key :: "json \<Rightarrow> error + string option" where
  "first_key v = (case object_keys v of
                    Inl e \<Rightarrow> Inl e
                  | Inr ks \<Rightarrow> Inr (case ks of [] \<Rightarrow> None | k # _ \<Rightarrow> Some k))"

definition first_value :: "json \<Rightarrow> json" where
  "first_value v = (case object_values v of
                      Inl e \<Rightarrow> JUndefined
                    | Inr vs \<Rightarrow> (case vs of [] \<Rightarrow> JUndefined | x # _ \<Rightarrow> x))"

definition sub_filter :: "string option \<Rightarrow> json \<Rightarrow> json" where
  "sub_filter sentinel v =
     (if sentinel = Some ''_none'' then first_value v
      else if sentinel = Some ''_some'' then first_value v
      else v)"

definition where_in_sub :: "string option \<Rightarrow> logical \<Rightarrow> expr \<Rightarrow> builder \<Rightarrow> call" where
  "where_in_sub sentinel logical pkField sub =
     (if sentinel = Some ''_none'' then WhereNotInSub logical pkField sub
      else if sentinel = Some ''_some'' then WhereInSub logical pkField sub
      else WhereInSub logical pkField sub)"

definition pk_field :: "string \<Rightarrow> collection_info \<Rightarrow> relation_type option \<Rightarrow> expr" where
  "pk_field collection collectionInfo relationType =
     (if relationType = Some O2A then cast_char (column_of collection (primary collectionInfo))
      else Ident (column_of collection (primary collectionInfo)))"

lemma first_value_size: "size (first_value v) \<le> size v"
proof (cases v)
  case (JArr xs)
  then show ?thesis
    by (cases xs) (simp_all add: first_value_def)
next
  case (JObj es)
  then show ?thesis
    by (cases es) (auto simp: first_value_def)
next
  case (JStr s)
  then show ?thesis
    by (cases s) (simp_all add: first_value_def)
qed (simp_all add: first_value_def)

lemma sub_filter_size_le: "size (sub_filter sentinel v) \<le> size v"
  by (simp add: sub_filter_def first_value_size)

lemma sub_query_size:
  assumes "filter_entries fltr = Inr es" and "entry \<in> set es"
  shows "size (sub_filter sentinel (snd entry)) < size fltr"
proof -
  have "size (snd entry) < size fltr"
    using assms filter_entries_size [of fltr es "fst entry" "snd entry"] by simp
  then show ?thesis
    using sub_filter_size_le [of sentinel "snd entry"] by simp
qed

lemma sub_query_measure:
  assumes "filter_entries fltr = Inr es" and "(k, v) \<in> set es"
  shows "Suc (Suc (3 * size (sub_filter sentinel v))) < 3 * size fltr"
  using sub_query_size [OF assms, of sentinel] by simp

text \<open>
  \<open>applyQuery\<close> (lines 29--72), \<open>applyFilter\<close> (lines 288--304) and \<open>addWhereClauses\<close>
  (lines 337--422) call each other: the subquery of a to-many relation is compiled by
  \<open>applyQuery\<close>. The builder is paired with the position in the supply of aliases. The
  callback handed to \<open>whereIn\<close> is run, on a builder of its own, when the call is made.
\<close>

function applyQuery :: "env \<Rightarrow> string \<Rightarrow> builder \<times> nat \<Rightarrow> query \<Rightarrow> bool \<Rightarrow> error + builder \<times> nat"
  and applyFilter :: "env \<Rightarrow> builder \<times> nat \<Rightarrow> json \<Rightarrow> string \<Rightarrow> bool \<Rightarrow> error + builder \<times> nat"
  and addWhereClauses :: "env \<Rightarrow> bool \<Rightarrow> string \<Rightarrow> logical \<Rightarrow> state \<Rightarrow> json \<Rightarrow> error + state"
where
  "applyQuery env collection target query subQuery =
     (case (case q_sort query of
              Some sortFields \<Rightarrow> applySort env target sortFields collection subQuery
            | None \<Rightarrow> Inr target) of
        Inl e \<Rightarrow> Inl e
      | Inr ordered \<Rightarrow>
          (let q1 = apply_paging query (fst ordered);
               q2 = (case q_search query of
                       Some search \<Rightarrow> if search \<noteq> [] then applySearch env q1 search collection else q1
                     | None \<Rightarrow> q1)
           in case (case q_group query of
                      Some groupFields \<Rightarrow> apply_group env collection q2 groupFields
                    | None \<Rightarrow> Inr q2) of
                Inl e \<Rightarrow> Inl e
              | Inr q3 \<Rightarrow>
                  (let q4 = (case q_aggregate query of
                               Some aggregate \<Rightarrow> applyAggregate q3 aggregate collection
                             | None \<Rightarrow> q3)
                   in if js_truthy (q_filter query)
                      then applyFilter env (q4, snd ordered) (q_filter query) collection subQuery
                      else Inr (q4, snd ordered))))"
| "applyFilter env target rootFilter collection subQuery =
     (case addJoins env subQuery collection
             \<lparr>rootQuery = fst target, aliasMap = [], aliasCount = snd target\<rparr> rootFilter of
        Inl e \<Rightarrow> Inl e
      | Inr st1 \<Rightarrow>
          (case addWhereClauses env subQuery collection And st1 rootFilter of
             Inl e \<Rightarrow> Inl e
           | Inr st2 \<Rightarrow> Inr (rootQuery st2, aliasCount st2)))"
| "addWhereClauses env subQuery collection logical st fltr =
     (case filter_entries fltr of
        Inl e \<Rightarrow> Inl e
      | Inr es \<Rightarrow>
          for_of es
            (\<lambda>st entry.
               if fst entry = ''_or'' \<or> fst entry = ''_and'' then
                 (case (if fst entry = ''_or'' then array_some_empty (snd entry) else Inr False) of
                    Inl e \<Rightarrow> Inl e
                  | Inr skip \<Rightarrow>
                      if skip then Inr st
                      else (case js_iterate (snd entry) of
                              Inl e \<Rightarrow> Inl e
                            | Inr subFilters \<Rightarrow>
                                for_of subFilters
                                  (\<lambda>st subFilter.
                                     addWhereClauses env subQuery collection
                                       (if fst entry = ''_and'' then And else Or) st subFilter)
                                  st))
               else
                 (case getFilterPath (fst entry) (snd entry) of
                    Inl e \<Rightarrow> Inl e
                  | Inr filterPath \<Rightarrow>
                      (case getRelationInfo env (getRelations env) collection
                              (path_root (case filterPath of [] \<Rightarrow> [] | segment # others \<Rightarrow> segment)) of
                         (relation, relationType) \<Rightarrow>
                           (case getOperation (fst entry) (snd entry) of
                              Inl e \<Rightarrow> Inl e
                            | Inr operation \<Rightarrow>
                                if relationType = Some M2O \<or> relationType = Some A2O \<or> relationType = None
                                then where_leaf env collection logical st filterPath
                                       (fst operation) (snd operation)
                                else if \<not> subQuery \<or> length filterPath > 1 then
                                  (case relation of
                                     None \<Rightarrow> Inr st
                                   | Some rel \<Rightarrow>
                                       (case getCollection env (rel_related_collection rel) of
                                          None \<Rightarrow> Inl TypeError
                                        | Some collectionInfo \<Rightarrow>
                                            (case first_key (snd entry) of
                                               Inl e \<Rightarrow> Inl e
                                             | Inr sentinel \<Rightarrow>
                                                 (case applyQuery env (rel_collection rel)
                                                         (subquery_base rel, aliasCount st)
                                                         (filter_query (sub_filter sentinel (snd entry)))
                                                         True of
                                                    Inl e \<Rightarrow> Inl e
                                                  | Inr sub \<Rightarrow>
                                                      Inr (st\<lparr>rootQuery := rootQuery st @
                                                                [where_in_sub sentinel logical
                                                                   (pk_field collection collectionInfo relationType)
                                                                   (fst sub)],
                                                              aliasCount := snd sub\<rparr>)))))
                                else Inr st))))
            st)"
  by pat_completeness auto
termination
  by (relation "measure (\<lambda>x. case x of
          Inl (env, collection, target, query, subQuery) \<Rightarrow> 3 * size (q_filter query) + 2
        | Inr (Inl (env, target, rootFilter, collection, subQuery)) \<Rightarrow> 3 * size rootFilter + 1
        | Inr (Inr (env, subQuery, collection, logical, st, fltr)) \<Rightarrow> 3 * size fltr)")
    (auto simp: filter_query_def sub_query_measure dest: sub_filter_size)

declare addJoins.simps [simp del]
declare applyQuery.simps [simp del]
declare applyFilter.simps [simp del]
declare addWhereClauses.simps [simp del]

subsection \<open>An example schema\<close>

text \<open>
  The schema of the comment above \<open>addJoin\<close> (pages have articles, an article has an
  author), a block with a many-to-any field \<open>item\<close>, and stand-ins for the imported helpers
  that follow their upstream sources, so that the compiler can be run on concrete inputs.
\<close>

definition articles_page :: relation where
  "articles_page = \<lparr>rel_collection = ''articles'', rel_field = ''page_id'',
                     rel_related_collection = Some ''pages'', rel_meta = None\<rparr>"

definition articles_author :: relation where
  "articles_author = \<lparr>rel_collection = ''articles'', rel_field = ''author'',
                       rel_related_collection = Some ''authors'', rel_meta = None\<rparr>"

definition blocks_item :: relation where
  "blocks_item = \<lparr>rel_collection = ''blocks'', rel_field = ''item'',
                   rel_related_collection = None,
                   rel_meta = Some \<lparr>one_collection_field = Some ''collection''\<rparr>\<rparr>"

definition demo_relation_info ::
  "relation list \<Rightarrow> string \<Rightarrow> string \<Rightarrow> relation option \<times> relation_type option" where
  "demo_relation_info relations collection fname =
     (if collection = ''pages'' \<and> fname = ''articles'' then (Some articles_page, Some O2M)
      else if collection = ''articles'' \<and> fname = ''page_id'' then (Some articles_page, Some M2O)
      else if collection = ''articles'' \<and> fname = ''author'' then (Some articles_author, Some M2O)
      else if collection = ''blocks'' \<and> fname = ''item'' then (Some blocks_item, Some A2O)
      else (None, None))"

definition demo_collection :: "string option \<Rightarrow> collection_info option" where
  "demo_collection name =
     (case name of
        None \<Rightarrow> None
      | Some c \<Rightarrow> if c \<in> set [''pages'', ''articles'', ''authors'', ''blocks'']
                  then Some \<lparr>primary = ''id''\<rparr> else None)"

definition demo_fields :: "string \<Rightarrow> (string \<times> field_info) list" where
  "demo_fields collection =
     (if collection = ''pages'' then
        [(''id'', \<lparr>field_type = ''integer'', field_special = []\<rparr>),
         (''title'', \<lparr>field_type = ''string'', field_special = []\<rparr>)]
      else if collection = ''articles'' then
        [(''id'', \<lparr>field_type = ''integer'', field_special = []\<rparr>),
         (''title'', \<lparr>field_type = ''string'', field_special = []\<rparr>),
         (''page_id'', \<lparr>field_type = ''integer'', field_special = []\<rparr>),
         (''author'', \<lparr>field_type = ''integer'', field_special = []\<rparr>)]
      else if collection = ''authors'' then
        [(''id'', \<lparr>field_type = ''uuid'', field_special = []\<rparr>),
         (''name'', \<lparr>field_type = ''string'', field_special = []\<rparr>),
         (''token'', \<lparr>field_type = ''string'', field_special = [''conceal'']\<rparr>),
         (''active'', \<lparr>field_type = ''boolean'', field_special = []\<rparr>)]
      else if collection = ''blocks'' then
        [(''id'', \<lparr>field_type = ''integer'', field_special = []\<rparr>),
         (''item'', \<lparr>field_type = ''string'', field_special = []\<rparr>),
         (''collection'', \<lparr>field_type = ''string'', field_special = []\<rparr>)]
      else [])"

fun get_path :: "amap \<Rightarrow> string list \<Rightarrow> string option" where
  "get_path (Alias a) [] = Some a"
| "get_path (Aliases es) [] = None"
| "get_path (Alias a) (k # ks) = None"
| "get_path (Aliases es) (k # ks) = (case lookup k es of None \<Rightarrow> None | Some m \<Rightarrow> get_path m ks)"

fun demo_column_path ::
  "amap \<Rightarrow> string list \<Rightarrow> string \<Rightarrow> string option \<Rightarrow> error + string \<times> string" where
  "demo_column_path aliases [] parentCollection parentAlias = Inl TypeError"
| "demo_column_path aliases (segment # rest) parentCollection parentAlias =
     (case demo_relation_info [] parentCollection (path_root segment) of
        (None, relationType) \<Rightarrow>
          Inl (InvalidQueryException
                 (''\"'' @ parentCollection @ ''.'' @ path_root segment @ ''\" is not a relational field''))
      | (Some relation, relationType) \<Rightarrow>
          (let alias = get_path aliases
                         (case parentAlias of None \<Rightarrow> segment # rest | Some a \<Rightarrow> a # segment # rest)
           in case next_parent relation relationType segment of
                Inl e \<Rightarrow> Inl e
              | Inr parent \<Rightarrow>
                  (case rest of
                     [] \<Rightarrow> Inr ([], [])
                   | [column] \<Rightarrow> Inr (column_of (alias_or alias parent) column, parent)
                   | _ \<Rightarrow> demo_column_path aliases rest parent alias)))"

definition demo_operators :: "string \<Rightarrow> string list" where
  "demo_operators type =
     (if type = ''hash'' then [''null'', ''nnull'', ''empty'', ''nempty'']
      else if type \<in> set [''integer'', ''bigInteger'', ''float'', ''decimal''] then
        [''eq'', ''neq'', ''lt'', ''lte'', ''gt'', ''gte'', ''between'', ''nbetween'',
         ''null'', ''nnull'', ''in'', ''nin'']
      else if type = ''uuid'' then [''eq'', ''neq'', ''null'', ''nnull'', ''in'', ''nin'']
      else if type = ''boolean'' then [''eq'', ''neq'', ''null'', ''nnull'']
      else
        [''contains'', ''ncontains'', ''icontains'', ''starts_with'', ''nstarts_with'',
         ''ends_with'', ''nends_with'', ''eq'', ''neq'', ''empty'', ''nempty'', ''null'', ''nnull'',
         ''in'', ''nin'', ''between'', ''nbetween''])"

definition is_digit :: "char \<Rightarrow> bool" where
  "is_digit c = (48 \<le> (of_char c :: nat) \<and> (of_char c :: nat) \<le> 57)"

definition demo_number :: "json \<Rightarrow> number" where
  "demo_number v =
     (case v of
        JNum n \<Rightarrow> n
      | JStr s \<Rightarrow> if list_all is_digit s
                  then Finite (int (foldl (\<lambda>n c. 10 * n + ((of_char c :: nat) - 48)) (0::nat) s))
                  else NaN
      | JBool b \<Rightarrow> Finite (if b then 1 else 0)
      | JNull \<Rightarrow> Finite 0
      | _ \<Rightarrow> NaN)"

definition demo_lower :: "string \<Rightarrow> string" where
  "demo_lower s = map (\<lambda>c. if 65 \<le> (of_char c :: nat) \<and> (of_char c :: nat) \<le> 90
                             then char_of ((of_char c :: nat) + 32) else c) s"

definition demo_uuid :: "string \<Rightarrow> bool" where
  "demo_uuid s = (map length (split_on CHR ''-'' s) = [8, 4, 4, 4, 12])"

definition demo_env :: env where
  "demo_env =
     \<lparr>generateAlias = (\<lambda>n. ''alias'' @ string_of_nat n),
      getRelations = [articles_page, articles_author, blocks_item],
      getRelationInfo = demo_relation_info,
      getCollection = demo_collection,
      getField = (\<lambda>collection fname. lookup fname (demo_fields collection)),
      getFields = demo_fields,
      getColumn = (\<lambda>table column. case column of
                                       None \<Rightarrow> Inl TypeError
                                     | Some c \<Rightarrow> Inr (Column (column_of table c))),
      getColumnPath = (\<lambda>path collection aliases relations.
                         demo_column_path aliases path collection None),
      stripFunction = (\<lambda>column. column),
      getFilterOperatorsForType = demo_operators,
      getOutputTypeForFunction = (\<lambda>f. if f = ''count'' \<or> f = ''year'' then ''integer'' else ''string''),
      js_Number = demo_number,
      toLowerCase = demo_lower,
      date_parse = (\<lambda>v. v),
      st_intersects = (\<lambda>key v. Raw ''intersects'' [Ident key]),
      st_nintersects = (\<lambda>key v. Raw ''nintersects'' [Ident key]),
      st_intersects_bbox = (\<lambda>key v. Raw ''intersects_bbox'' [Ident key]),
      st_nintersects_bbox = (\<lambda>key v. Raw ''nintersects_bbox'' [Ident key]),
      uuid_validate = demo_uuid\<rparr>"

subsection \<open>Notions used in the statements\<close>


text \<open>The calls a run of the path resolver appends are left joins.\<close>

fun is_join :: "call \<Rightarrow> bool" where
  "is_join (LeftJoin alias table cond) = True"
| "is_join c = False"

definition extends_by_joins :: "state \<Rightarrow> state \<Rightarrow> bool" where
  "extends_by_joins st st' = (\<exists>js. rootQuery st' = rootQuery st @ js \<and> list_all is_join js)"

text \<open>The calls of \<open>limit\<close> and \<open>offset\<close> made on a query.\<close>

fun is_paging :: "call \<Rightarrow> bool" where
  "is_paging (Limit n) = True"
| "is_paging (Offset n) = True"
| "is_paging c = False"

definition paging :: "builder \<Rightarrow> call list" where
  "paging dbQuery = filter is_paging dbQuery"


text \<open>A step of \<open>applyFilterToQuery\<close> that makes no call of \<open>limit\<close> or \<open>offset\<close>.\<close>

definition paging_safe :: "(builder \<Rightarrow> error + builder) \<Rightarrow> bool" where
  "paging_safe step = (\<forall>q q'. step q = Inr q' \<longrightarrow> paging q' = paging q)"




section \<open>Theorems\<close>

lemma projection_names_append:
  "projection_names (xs @ ys) = projection_names xs @ projection_names ys"
  by (induction xs rule: projection_names.induct) simp_all

lemma applyAggregate_field_known:
  assumes "operation \<in> set aggregate_operations"
  shows "\<exists>f c. applyAggregate_field collection operation dbQuery fname =
           dbQuery @ [Aggregate f c (aggregate_alias operation fname)]"
  using assms
  by (auto simp: aggregate_operations_def applyAggregate_field_def aggregate_alias_def)

lemma applyAggregate_fields_names:
  assumes "operation \<in> set aggregate_operations"
  shows "projection_names (foldl (applyAggregate_field collection operation) dbQuery fieldList) =
           projection_names dbQuery @ map (aggregate_alias operation) fieldList"
proof (induction fieldList arbitrary: dbQuery)
  case Nil
  show ?case by simp
next
  case (Cons f fs)
  obtain g c where
    step: "applyAggregate_field collection operation dbQuery f =
             dbQuery @ [Aggregate g c (aggregate_alias operation f)]"
    using applyAggregate_field_known [OF assms] by blast
  show ?case
    by (simp add: Cons.IH step projection_names_append)
qed

lemma applyAggregate_fields_append:
  assumes "operation \<in> set aggregate_operations"
  shows "\<exists>cs. foldl (applyAggregate_field collection operation) dbQuery fieldList = dbQuery @ cs \<and>
           length cs = length fieldList"
proof (induction fieldList arbitrary: dbQuery)
  case Nil
  show ?case by simp
next
  case (Cons f fs)
  obtain g c where
    step: "applyAggregate_field collection operation dbQuery f =
             dbQuery @ [Aggregate g c (aggregate_alias operation f)]"
    using applyAggregate_field_known [OF assms] by blast
  obtain cs where
    rest: "foldl (applyAggregate_field collection operation)
             (dbQuery @ [Aggregate g c (aggregate_alias operation f)]) fs =
           (dbQuery @ [Aggregate g c (aggregate_alias operation f)]) @ cs"
      and len: "length cs = length fs"
    using Cons.IH by blast
  show ?case
    using rest len by (simp add: step)
qed

lemma applyAggregate_shape:
  assumes "\<forall>e \<in> set agg. fst e \<in> set aggregate_operations"
  shows "\<exists>cs. applyAggregate dbQuery agg collection = dbQuery @ cs \<and>
           length cs = length (aggregate_pairs agg) \<and>
           projection_names cs = map (\<lambda>(operation, fname). aggregate_alias operation fname) (aggregate_pairs agg)"
  using assms
proof (induction dbQuery agg collection rule: applyAggregate.induct)
  case (1 dbQuery collection)
  show ?case by simp
next
  case (2 dbQuery operation rest collection)
  then show ?case by simp
next
  case (3 dbQuery operation fieldList rest collection)
  have known: "operation \<in> set aggregate_operations"
    using "3.prems" by simp
  obtain cs where
    a: "foldl (applyAggregate_field collection operation) dbQuery fieldList = dbQuery @ cs"
      and b: "length cs = length fieldList"
    using applyAggregate_fields_append [OF known] by blast
  have c: "projection_names cs = map (aggregate_alias operation) fieldList"
    using applyAggregate_fields_names [OF known, of collection dbQuery fieldList] a
    by (simp add: projection_names_append)
  obtain ds where
    d: "applyAggregate (dbQuery @ cs) rest collection = (dbQuery @ cs) @ ds"
      and e: "length ds = length (aggregate_pairs rest)"
      and f: "projection_names ds =
                map (\<lambda>(operation, fname). aggregate_alias operation fname) (aggregate_pairs rest)"
    using "3.IH" "3.prems" a by auto
  show ?case
    using a b c d e f
    by (intro exI [of _ "cs @ ds"]) (simp add: projection_names_append comp_def)
qed

subsection \<open>C6: the names of the aggregate projections\<close>

text \<open>
  C6, as stated, fails: the claim gives the name \<open>sum->.amount\<close> to the projection of
  \<open>{sum: ["amount"]}\<close>, and the code names it \<open>sum->amount\<close> (no dot after the arrow).
\<close>

theorem C6_arrow_dot_counterexample:
  "applyAggregate [] [(''sum'', Some [''amount''])] ''orders'' =
     [Aggregate Sum (Ident ''orders.amount'') ''sum->amount''] \<and>
   projection_names (applyAggregate [] [(''sum'', Some [''amount''])] ''orders'') \<noteq>
     [''sum->.amount'']"
  by (simp add: applyAggregate_field_def column_of_def)

text \<open>
  C6, amended: for an aggregate specification whose operations are among the nine of the
  \<open>Aggregate\<close> type, \<open>applyAggregate\<close> appends exactly one call per (operation, field)
  pair, in order, every one an aggregate projection, and the projection of a pair is
  named \<open>count\<close> for \<open>count\<close> on \<open>*\<close>, \<open>countAll\<close> for \<open>countAll\<close>, and
  \<open><operation>-><field>\<close> otherwise.
\<close>

theorem C6_aggregate_projection_names:
  assumes "\<forall>e \<in> set agg. fst e \<in> set aggregate_operations"
  shows "\<exists>cs. applyAggregate dbQuery agg collection = dbQuery @ cs \<and>
           length cs = length (aggregate_pairs agg) \<and>
           projection_names cs =
             map (\<lambda>(operation, fname).
                    if operation = ''countAll'' then ''countAll''
                    else if operation = ''count'' \<and> fname = ''*'' then ''count''
                    else operation @ ''->'' @ fname) (aggregate_pairs agg)"
  using applyAggregate_shape [OF assms, of dbQuery collection]
  by (simp add: aggregate_alias_def)

theorem C6_aggregate_projection_names_witness:
  "\<exists>cs. applyAggregate [] [(''count'', Some [''*'']), (''sum'', Some [''amount''])] ''orders'' = cs \<and>
        length cs = 2 \<and> projection_names cs = [''count'', ''sum->amount'']"
  using C6_aggregate_projection_names
    [of "[(''count'', Some [''*'']), (''sum'', Some [''amount''])]" "[]" "''orders''"]
  by (simp add: aggregate_operations_def)

subsection \<open>Loops\<close>

lemma for_of_append:
  "for_of (xs @ ys) body s =
     (case for_of xs body s of Inl e \<Rightarrow> Inl e | Inr s' \<Rightarrow> for_of ys body s')"
  by (induction xs arbitrary: s) (auto split: sum.splits)

lemma for_of_preserves:
  assumes "for_of xs body s = Inr s'"
    and "\<And>x u u'. x \<in> set xs \<Longrightarrow> body u x = Inr u' \<Longrightarrow> f u' = f u"
  shows "f s' = f s"
  using assms
proof (induction xs arbitrary: s)
  case Nil
  then show ?case by simp
next
  case (Cons x xs)
  then obtain u where u: "body s x = Inr u" and rest: "for_of xs body u = Inr s'"
    by (auto split: sum.splits)
  have "f s' = f u"
  proof (rule Cons.IH [OF rest])
    fix y v v'
    assume "y \<in> set xs" and "body v y = Inr v'"
    then show "f v' = f v"
      using Cons.prems(2) [of y v v'] by simp
  qed
  moreover have "f u = f s"
    using Cons.prems(2) [of x s u] u by simp
  ultimately show ?case by simp
qed

subsection \<open>C8: the search compiler\<close>




text \<open>The example of the specification: the term \<open>42\<close>, one text field and one integer
  field.\<close>

lemma applySearch_example:
  "applySearch
     (demo_env\<lparr>getFields := (\<lambda>c. [(''title'', \<lparr>field_type = ''text'', field_special = []\<rparr>),
                                  (''views'', \<lparr>field_type = ''integer'', field_special = []\<rparr>)])\<rparr>)
     [] ''42'' ''posts'' =
   [AndWhere And
      [OrWhereRaw ''LOWER(??) LIKE ?'' [Ident ''posts.title'', Text ''%42%''],
       OrWhere ''posts.views'' (JNum (Finite 42))]]"
  by code_simp

subsection \<open>C7: \<open>_in\<close> and \<open>_between\<close> on a comma-joined string\<close>







subsection \<open>The two passes over a filter, entry by entry\<close>

lemma addJoins_Nil: "addJoins env subQuery collection st (JObj []) = Inr st"
  by (simp add: addJoins.simps [of _ _ _ _ "JObj _"])

lemma addJoins_append:
  "addJoins env subQuery collection st (JObj (xs @ ys)) =
     (case addJoins env subQuery collection st (JObj xs) of
        Inl e \<Rightarrow> Inl e
      | Inr st' \<Rightarrow> addJoins env subQuery collection st' (JObj ys))"
  by (simp add: addJoins.simps [of _ _ _ _ "JObj _"] for_of_append split: sum.splits)

lemma addWhereClauses_Nil: "addWhereClauses env subQuery collection logical st (JObj []) = Inr st"
  by (simp add: addWhereClauses.simps [of _ _ _ _ _ "JObj _"])

lemma addWhereClauses_append:
  "addWhereClauses env subQuery collection logical st (JObj (xs @ ys)) =
     (case addWhereClauses env subQuery collection logical st (JObj xs) of
        Inl e \<Rightarrow> Inl e
      | Inr st' \<Rightarrow> addWhereClauses env subQuery collection logical st' (JObj ys))"
  by (simp add: addWhereClauses.simps [of _ _ _ _ _ "JObj _"] for_of_append split: sum.splits)

lemma some_empty_True:
  assumes "JObj [] \<in> set children" and "JNull \<notin> set children" and "JUndefined \<notin> set children"
  shows "some_empty children = Inr True"
  using assms
proof (induction children)
  case Nil
  then show ?case by simp
next
  case (Cons c cs)
  show ?case
  proof (cases "c = JObj []")
    case True
    then show ?thesis by simp
  next
    case False
    then have "some_empty cs = Inr True"
      using Cons by simp
    moreover obtain ks where "object_keys c = Inr ks"
      using Cons.prems by (cases c) auto
    ultimately show ?thesis by simp
  qed
qed

lemma addJoins_or_skipped:
  assumes "some_empty children = Inr True"
  shows "addJoins env subQuery collection st (JObj [(''_or'', JArr children)]) = Inr st"
  using assms by (simp add: addJoins.simps [of _ _ _ _ "JObj _"])

lemma addWhereClauses_or_skipped:
  assumes "some_empty children = Inr True"
  shows "addWhereClauses env subQuery collection logical st (JObj [(''_or'', JArr children)]) = Inr st"
  using assms by (simp add: addWhereClauses.simps [of _ _ _ _ _ "JObj _"])

lemma addJoins_or_dropped:
  assumes "some_empty children = Inr True"
  shows "addJoins env subQuery collection st (JObj (before @ (''_or'', JArr children) # after)) =
         addJoins env subQuery collection st (JObj (before @ after))"
proof -
  have "addJoins env subQuery collection st (JObj (before @ [(''_or'', JArr children)] @ after)) =
        addJoins env subQuery collection st (JObj (before @ after))"
    unfolding addJoins_append [of _ _ _ _ before]
      addJoins_append [of _ _ _ _ "[(''_or'', JArr children)]"]
    by (simp add: addJoins_or_skipped [OF assms] split: sum.splits)
  then show ?thesis by simp
qed

lemma addWhereClauses_or_dropped:
  assumes "some_empty children = Inr True"
  shows "addWhereClauses env subQuery collection logical st
           (JObj (before @ (''_or'', JArr children) # after)) =
         addWhereClauses env subQuery collection logical st (JObj (before @ after))"
proof -
  have "addWhereClauses env subQuery collection logical st
          (JObj (before @ [(''_or'', JArr children)] @ after)) =
        addWhereClauses env subQuery collection logical st (JObj (before @ after))"
    unfolding addWhereClauses_append [of _ _ _ _ _ before]
      addWhereClauses_append [of _ _ _ _ _ "[(''_or'', JArr children)]"]
    by (simp add: addWhereClauses_or_skipped [OF assms] split: sum.splits)
  then show ?thesis by simp
qed

lemma apply_paging_none: "apply_paging (filter_query fltr) dbQuery = dbQuery"
  by (simp add: apply_paging_def filter_query_def)

lemma applyQuery_filter_only:
  "applyQuery env collection target (filter_query fltr) subQuery =
     (if js_truthy fltr then applyFilter env target fltr collection subQuery else Inr target)"
  by (simp add: applyQuery.simps) (simp add: filter_query_def apply_paging_def)

subsection \<open>C3: an \<open>_or\<close> with an empty object among its children\<close>

text \<open>
  C3: when the array of an \<open>_or\<close> entry holds an empty object (and, as the \<open>Filter\<close> type
  has it, neither \<open>null\<close> nor \<open>undefined\<close>), the join pass and the predicate pass both
  leave the entry out: the filter compiles as the filter without that entry does, whatever
  the other children of the array are. The filter \<open>{_or: [{}, {field: {_eq: v}}]}\<close> leaves
  the query as it was.
\<close>

theorem C3_or_with_empty_object_skipped:
  assumes "JObj [] \<in> set children" and "JNull \<notin> set children" and "JUndefined \<notin> set children"
  shows "addJoins env subQuery collection st (JObj (before @ (''_or'', JArr children) # after)) =
           addJoins env subQuery collection st (JObj (before @ after)) \<and>
         addWhereClauses env subQuery collection logical st
             (JObj (before @ (''_or'', JArr children) # after)) =
           addWhereClauses env subQuery collection logical st (JObj (before @ after)) \<and>
         applyFilter env target (JObj (before @ (''_or'', JArr children) # after)) collection subQuery =
           applyFilter env target (JObj (before @ after)) collection subQuery \<and>
         applyQuery env collection target
             (filter_query (JObj [(''_or'', JArr [JObj [], JObj [(fname, JObj [(''_eq'', v)])]])]))
             subQuery = Inr target"
proof -
  have skip: "some_empty children = Inr True"
    using some_empty_True [OF assms] .
  have "applyFilter env target (JObj [(''_or'', JArr [JObj [], JObj [(fname, JObj [(''_eq'', v)])]])])
          collection subQuery = Inr target"
    by (simp add: applyFilter.simps addJoins_or_skipped addWhereClauses_or_skipped)
  then show ?thesis
    by (simp add: addJoins_or_dropped [OF skip] addWhereClauses_or_dropped [OF skip]
        applyFilter.simps applyQuery_filter_only cong: sum.case_cong)
qed

theorem C3_or_with_empty_object_skipped_witness:
  "applyQuery demo_env ''articles'' ([], 0)
     (filter_query (JObj [(''title'', JObj [(''_eq'', JStr ''x'')]),
                          (''_or'', JArr [JObj [], JObj [(''author'', JObj [(''name'', JObj [(''_eq'', JStr ''Rijk'')])])]])]))
     False =
   applyQuery demo_env ''articles'' ([], 0)
     (filter_query (JObj [(''title'', JObj [(''_eq'', JStr ''x'')])])) False"
  using C3_or_with_empty_object_skipped
    [where children = "[JObj [], JObj [(''author'', JObj [(''name'', JObj [(''_eq'', JStr ''Rijk'')])])]]"
       and env = demo_env and subQuery = False and collection = "''articles''"
       and before = "[(''title'', JObj [(''_eq'', JStr ''x'')])]" and after = "[]"
       and target = "([], 0)"]
  by (simp add: applyQuery_filter_only)

subsection \<open>What the path resolver adds to the query\<close>

lemma extends_by_joins_refl: "extends_by_joins st st"
  by (simp add: extends_by_joins_def)

lemma extends_by_joins_trans:
  "extends_by_joins a b \<Longrightarrow> extends_by_joins b c \<Longrightarrow> extends_by_joins a c"
  by (auto simp: extends_by_joins_def)

lemma join_m2o_extends:
  "join_m2o pa pc rel alias info st = Inr st' \<Longrightarrow> extends_by_joins st st'"
  by (auto simp: join_m2o_def leftJoin_def extends_by_joins_def split: option.splits)

lemma join_a2o_extends:
  "join_a2o env pa pc rel alias segment st = Inr st' \<Longrightarrow> extends_by_joins st st'"
  by (auto simp: join_a2o_def leftJoin_def extends_by_joins_def split: option.splits if_splits)

lemma join_o2a_extends:
  "join_o2a env pa pc rel alias st = Inr st' \<Longrightarrow> extends_by_joins st st'"
  by (auto simp: join_o2a_def leftJoin_def extends_by_joins_def split: option.splits)

lemma join_o2m_extends:
  "join_o2m pa pc rel alias info st = Inr st' \<Longrightarrow> extends_by_joins st st'"
  by (auto simp: join_o2m_def leftJoin_def extends_by_joins_def split: option.splits)

lemma bind_InrE:
  assumes "(case m of Inl e \<Rightarrow> Inl e | Inr x \<Rightarrow> f x) = Inr y"
  obtains x where "m = Inr x" and "f x = Inr y"
  using assms by (cases m) auto

lemma followRelation_extends:
  "followRelation env subQuery st path parentCollection parentAlias = Inr st' \<Longrightarrow>
   extends_by_joins st st'"
proof (induction env subQuery st path parentCollection parentAlias arbitrary: st'
    rule: followRelation.induct)
  case (1 env subQuery st parentCollection parentAlias)
  then show ?case by (simp add: followRelation.simps)
next
  case (2 env subQuery st segment rest parentCollection parentAlias)
  obtain relation relationType where
    info: "getRelationInfo env (getRelations env) parentCollection (path_root segment) =
             (relation, relationType)"
    by (cases "getRelationInfo env (getRelations env) parentCollection (path_root segment)")
  show ?case
  proof (cases relation)
    case None
    then show ?thesis
      using "2.prems" info by (simp add: followRelation.simps extends_by_joins_refl)
  next
    case (Some rel)
    define fresh where "fresh = generateAlias env (aliasCount st)"
    define info0 where "info0 = getCollection env (rel_related_collection rel)"
    define st0 where
      "st0 = st\<lparr>aliasCount := Suc (aliasCount st),
                 aliasMap := set_path (aliasMap st)
                   (case parentAlias of
                      None \<Rightarrow> segment # rest
                    | Some a \<Rightarrow> if a = [] then segment # rest else a # segment # rest) fresh\<rparr>"
    have chain:
      "(case (if relationType = Some M2O
              then join_m2o parentAlias parentCollection rel fresh info0 st0 else Inr st0) of
          Inl e \<Rightarrow> Inl e
        | Inr st1 \<Rightarrow>
       (case (if relationType = Some A2O
              then join_a2o env parentAlias parentCollection rel fresh segment st1 else Inr st1) of
          Inl e \<Rightarrow> Inl e
        | Inr st2 \<Rightarrow>
       (case (if relationType = Some O2A
              then join_o2a env parentAlias parentCollection rel fresh st2 else Inr st2) of
          Inl e \<Rightarrow> Inl e
        | Inr st3 \<Rightarrow>
       (case (if relationType = Some O2M \<and> (subQuery \<or> parentAlias \<noteq> None)
              then join_o2m parentAlias parentCollection rel fresh info0 st3 else Inr st3) of
          Inl e \<Rightarrow> Inl e
        | Inr st4 \<Rightarrow>
            if relationType = Some M2O \<or> subQuery \<or> (relationType = Some O2M \<and> parentAlias \<noteq> None)
            then (case next_parent rel relationType segment of
                    Inl e \<Rightarrow> Inl e
                  | Inr parent \<Rightarrow>
                      if rest \<noteq> [] then followRelation env subQuery st4 rest parent (Some fresh)
                      else Inr st4)
            else Inr st4)))) = Inr st'"
      using "2.prems"
      unfolding followRelation.simps info prod.case Some option.case Let_def
        fresh_def info0_def st0_def .
    from chain obtain st1 where
      s1: "(if relationType = Some M2O
            then join_m2o parentAlias parentCollection rel fresh info0 st0 else Inr st0) = Inr st1"
      and chain1:
      "(case (if relationType = Some A2O
              then join_a2o env parentAlias parentCollection rel fresh segment st1 else Inr st1) of
          Inl e \<Rightarrow> Inl e
        | Inr st2 \<Rightarrow>
       (case (if relationType = Some O2A
              then join_o2a env parentAlias parentCollection rel fresh st2 else Inr st2) of
          Inl e \<Rightarrow> Inl e
        | Inr st3 \<Rightarrow>
       (case (if relationType = Some O2M \<and> (subQuery \<or> parentAlias \<noteq> None)
              then join_o2m parentAlias parentCollection rel fresh info0 st3 else Inr st3) of
          Inl e \<Rightarrow> Inl e
        | Inr st4 \<Rightarrow>
            if relationType = Some M2O \<or> subQuery \<or> (relationType = Some O2M \<and> parentAlias \<noteq> None)
            then (case next_parent rel relationType segment of
                    Inl e \<Rightarrow> Inl e
                  | Inr parent \<Rightarrow>
                      if rest \<noteq> [] then followRelation env subQuery st4 rest parent (Some fresh)
                      else Inr st4)
            else Inr st4))) = Inr st'"
      by (rule bind_InrE)
    from chain1 obtain st2 where
      s2: "(if relationType = Some A2O
            then join_a2o env parentAlias parentCollection rel fresh segment st1 else Inr st1) = Inr st2"
      and chain2:
      "(case (if relationType = Some O2A
              then join_o2a env parentAlias parentCollection rel fresh st2 else Inr st2) of
          Inl e \<Rightarrow> Inl e
        | Inr st3 \<Rightarrow>
       (case (if relationType = Some O2M \<and> (subQuery \<or> parentAlias \<noteq> None)
              then join_o2m parentAlias parentCollection rel fresh info0 st3 else Inr st3) of
          Inl e \<Rightarrow> Inl e
        | Inr st4 \<Rightarrow>
            if relationType = Some M2O \<or> subQuery \<or> (relationType = Some O2M \<and> parentAlias \<noteq> None)
            then (case next_parent rel relationType segment of
                    Inl e \<Rightarrow> Inl e
                  | Inr parent \<Rightarrow>
                      if rest \<noteq> [] then followRelation env subQuery st4 rest parent (Some fresh)
                      else Inr st4)
            else Inr st4)) = Inr st'"
      by (rule bind_InrE)
    from chain2 obtain st3 where
      s3: "(if relationType = Some O2A
            then join_o2a env parentAlias parentCollection rel fresh st2 else Inr st2) = Inr st3"
      and chain3:
      "(case (if relationType = Some O2M \<and> (subQuery \<or> parentAlias \<noteq> None)
              then join_o2m parentAlias parentCollection rel fresh info0 st3 else Inr st3) of
          Inl e \<Rightarrow> Inl e
        | Inr st4 \<Rightarrow>
            if relationType = Some M2O \<or> subQuery \<or> (relationType = Some O2M \<and> parentAlias \<noteq> None)
            then (case next_parent rel relationType segment of
                    Inl e \<Rightarrow> Inl e
                  | Inr parent \<Rightarrow>
                      if rest \<noteq> [] then followRelation env subQuery st4 rest parent (Some fresh)
                      else Inr st4)
            else Inr st4) = Inr st'"
      by (rule bind_InrE)
    from chain3 obtain st4 where
      s4: "(if relationType = Some O2M \<and> (subQuery \<or> parentAlias \<noteq> None)
            then join_o2m parentAlias parentCollection rel fresh info0 st3 else Inr st3) = Inr st4"
      and tail:
      "(if relationType = Some M2O \<or> subQuery \<or> (relationType = Some O2M \<and> parentAlias \<noteq> None)
        then (case next_parent rel relationType segment of
                Inl e \<Rightarrow> Inl e
              | Inr parent \<Rightarrow>
                  if rest \<noteq> [] then followRelation env subQuery st4 rest parent (Some fresh)
                  else Inr st4)
        else Inr st4) = Inr st'"
      by (rule bind_InrE)
    have e0: "extends_by_joins st st0"
      by (simp add: st0_def extends_by_joins_def)
    have e1: "extends_by_joins st0 st1"
      using s1 join_m2o_extends by (auto simp: extends_by_joins_refl split: if_splits)
    have e2: "extends_by_joins st1 st2"
      using s2 join_a2o_extends by (auto simp: extends_by_joins_refl split: if_splits)
    have e3: "extends_by_joins st2 st3"
      using s3 join_o2a_extends by (auto simp: extends_by_joins_refl split: if_splits)
    have e4: "extends_by_joins st3 st4"
      using s4 join_o2m_extends by (auto simp: extends_by_joins_refl split: if_splits)
    have e5: "extends_by_joins st4 st'"
    proof (cases "(relationType = Some M2O \<or> subQuery \<or> (relationType = Some O2M \<and> parentAlias \<noteq> None)) \<and> rest \<noteq> []")
      case True
      then obtain parent where
        p: "next_parent rel relationType segment = Inr parent"
        and r: "followRelation env subQuery st4 rest parent (Some fresh) = Inr st'"
        using tail by (auto split: sum.splits if_splits)
      show ?thesis
        by (rule "2.IH" [OF info [symmetric] Some fresh_def info0_def st0_def s1 s2 s3 s4 _ p _ r])
          (use True in auto)
    next
      case False
      then have "st' = st4"
        using tail by (auto split: sum.splits if_splits)
      then show ?thesis
        by (simp add: extends_by_joins_refl)
    qed
    show ?thesis
      using e0 e1 e2 e3 e4 e5 extends_by_joins_trans by blast
  qed
qed

subsection \<open>C4: a many-to-any segment needs a scope\<close>

lemma followRelation_a2o:
  assumes "getRelationInfo env (getRelations env) parentCollection (path_root segment) =
             (Some relation, Some A2O)"
  shows "followRelation env subQuery st (segment # rest) parentCollection parentAlias =
     (case join_a2o env parentAlias parentCollection relation (generateAlias env (aliasCount st)) segment
             (st\<lparr>aliasCount := Suc (aliasCount st),
                 aliasMap := set_path (aliasMap st)
                   (case parentAlias of
                      None \<Rightarrow> segment # rest
                    | Some a \<Rightarrow> if a = [] then segment # rest else a # segment # rest)
                   (generateAlias env (aliasCount st))\<rparr>) of
        Inl e \<Rightarrow> Inl e
      | Inr st2 \<Rightarrow>
          if subQuery \<and> rest \<noteq> []
          then (case next_parent relation (Some A2O) segment of
                  Inl e \<Rightarrow> Inl e
                | Inr parent \<Rightarrow>
                    followRelation env subQuery st2 rest parent (Some (generateAlias env (aliasCount st))))
          else Inr st2)"
  using assms
  by (auto simp: followRelation.simps Let_def join_a2o_def next_parent_def
      split: sum.splits option.splits)

text \<open>
  C4: when the current segment of a path resolves to a many-to-any relation, the resolver
  (\<open>followRelation\<close>, which the filter and the sort compiler share) throws the
  invalid-query exception if the segment has no scope after a colon or an empty one. With a
  scope, a discriminator column and a scoped collection that the schema knows, every
  successful run has appended, first, the left join of the scoped collection under the
  fresh alias on \<open>discriminator = scope\<close> and
  \<open>parent.field = CAST(alias.primary AS CHAR(255))\<close>; outside a subquery the run succeeds
  and that join is all it appends.
\<close>

theorem C4_many_to_any_scope:
  assumes "getRelationInfo env (getRelations env) parentCollection (path_root segment) =
             (Some relation, Some A2O)"
  shows "(path_scope segment = None \<or> path_scope segment = Some [] \<longrightarrow>
            followRelation env subQuery st (segment # rest) parentCollection parentAlias =
              Inl (InvalidQueryException
                     ''You have to provide a collection scope when sorting or filtering on a many-to-any item'')) \<and>
         (\<forall>scope meta discriminator info.
            path_scope segment = Some scope \<and> scope \<noteq> [] \<and> rel_meta relation = Some meta \<and>
            one_collection_field meta = Some discriminator \<and>
            getCollection env (Some scope) = Some info \<longrightarrow>
            (\<forall>st'. followRelation env subQuery st (segment # rest) parentCollection parentAlias = Inr st' \<longrightarrow>
               (\<exists>more. rootQuery st' = rootQuery st @
                  LeftJoin (generateAlias env (aliasCount st)) scope
                    (OnValAndOn discriminator scope
                       (alias_or parentAlias parentCollection @ ''.'' @ rel_field relation)
                       (Raw ''CAST(?? AS CHAR(255))''
                          [Ident (generateAlias env (aliasCount st) @ ''.'' @ primary info)])) # more)) \<and>
            (\<not> subQuery \<longrightarrow>
               (\<exists>aliases. followRelation env subQuery st (segment # rest) parentCollection parentAlias =
                  Inr \<lparr>rootQuery = rootQuery st @
                         [LeftJoin (generateAlias env (aliasCount st)) scope
                            (OnValAndOn discriminator scope
                               (alias_or parentAlias parentCollection @ ''.'' @ rel_field relation)
                               (Raw ''CAST(?? AS CHAR(255))''
                                  [Ident (generateAlias env (aliasCount st) @ ''.'' @ primary info)]))],
                       aliasMap = aliases, aliasCount = Suc (aliasCount st)\<rparr>)))"
proof (intro conjI allI impI)
  assume "path_scope segment = None \<or> path_scope segment = Some []"
  then show "followRelation env subQuery st (segment # rest) parentCollection parentAlias =
               Inl (InvalidQueryException
                      ''You have to provide a collection scope when sorting or filtering on a many-to-any item'')"
    by (auto simp: followRelation_a2o [OF assms] join_a2o_def scope_message_def)
next
  fix scope meta discriminator info st'
  assume present: "path_scope segment = Some scope \<and> scope \<noteq> [] \<and> rel_meta relation = Some meta \<and>
            one_collection_field meta = Some discriminator \<and>
            getCollection env (Some scope) = Some info"
    and run: "followRelation env subQuery st (segment # rest) parentCollection parentAlias = Inr st'"
  define joined where
    "joined = leftJoin
       (st\<lparr>aliasCount := Suc (aliasCount st),
           aliasMap := set_path (aliasMap st)
             (case parentAlias of
                None \<Rightarrow> segment # rest
              | Some a \<Rightarrow> if a = [] then segment # rest else a # segment # rest)
             (generateAlias env (aliasCount st))\<rparr>)
       (generateAlias env (aliasCount st)) scope
       (OnValAndOn discriminator scope
          (column_of (alias_or parentAlias parentCollection) (rel_field relation))
          (cast_char (column_of (generateAlias env (aliasCount st)) (primary info))))"
  have "extends_by_joins joined st'"
    using run present followRelation_extends [of env subQuery joined rest scope _ st']
    by (auto simp: followRelation_a2o [OF assms] join_a2o_def next_parent_def joined_def
        extends_by_joins_refl split: if_splits)
  then show "\<exists>more. rootQuery st' = rootQuery st @
                  LeftJoin (generateAlias env (aliasCount st)) scope
                    (OnValAndOn discriminator scope
                       (alias_or parentAlias parentCollection @ ''.'' @ rel_field relation)
                       (Raw ''CAST(?? AS CHAR(255))''
                          [Ident (generateAlias env (aliasCount st) @ ''.'' @ primary info)])) # more"
    by (auto simp: extends_by_joins_def joined_def leftJoin_def column_of_def cast_char_def)
next
  fix scope meta discriminator info
  assume "path_scope segment = Some scope \<and> scope \<noteq> [] \<and> rel_meta relation = Some meta \<and>
            one_collection_field meta = Some discriminator \<and>
            getCollection env (Some scope) = Some info"
    and "\<not> subQuery"
  then show "\<exists>aliases. followRelation env subQuery st (segment # rest) parentCollection parentAlias =
                  Inr \<lparr>rootQuery = rootQuery st @
                         [LeftJoin (generateAlias env (aliasCount st)) scope
                            (OnValAndOn discriminator scope
                               (alias_or parentAlias parentCollection @ ''.'' @ rel_field relation)
                               (Raw ''CAST(?? AS CHAR(255))''
                                  [Ident (generateAlias env (aliasCount st) @ ''.'' @ primary info)]))],
                       aliasMap = aliases, aliasCount = Suc (aliasCount st)\<rparr>"
    by (cases st)
      (simp add: followRelation_a2o [OF assms] join_a2o_def leftJoin_def column_of_def cast_char_def)
qed

theorem C4_many_to_any_scope_witness:
  "followRelation demo_env False \<lparr>rootQuery = [], aliasMap = [], aliasCount = 0\<rparr>
     [''item'', ''title''] ''blocks'' None =
     Inl (InvalidQueryException
            ''You have to provide a collection scope when sorting or filtering on a many-to-any item'') \<and>
   (\<exists>aliases.
      followRelation demo_env False \<lparr>rootQuery = [], aliasMap = [], aliasCount = 0\<rparr>
        [''item:pages'', ''title''] ''blocks'' None =
      Inr \<lparr>rootQuery =
             [LeftJoin ''alias0'' ''pages''
                (OnValAndOn ''collection'' ''pages'' ''blocks.item''
                   (Raw ''CAST(?? AS CHAR(255))'' [Ident ''alias0.id'']))],
           aliasMap = aliases, aliasCount = 1\<rparr>)"
proof -
  have a: "getRelationInfo demo_env (getRelations demo_env) ''blocks'' (path_root ''item'') =
             (Some blocks_item, Some A2O)"
    by (simp add: demo_env_def demo_relation_info_def path_root_def)
  have b: "getRelationInfo demo_env (getRelations demo_env) ''blocks'' (path_root ''item:pages'') =
             (Some blocks_item, Some A2O)"
    by (simp add: demo_env_def demo_relation_info_def path_root_def)
  have c: "path_scope ''item'' = None"
    by (simp add: path_scope_def)
  have d: "path_scope ''item:pages'' = Some ''pages'' \<and> ''pages'' \<noteq> [] \<and>
           rel_meta blocks_item = Some \<lparr>one_collection_field = Some ''collection''\<rparr> \<and>
           one_collection_field \<lparr>one_collection_field = Some ''collection''\<rparr> = Some ''collection'' \<and>
           getCollection demo_env (Some ''pages'') = Some \<lparr>primary = ''id''\<rparr>"
    by (simp add: path_scope_def blocks_item_def demo_env_def demo_collection_def)
  have e: "generateAlias demo_env 0 = ''alias0''"
    by (simp add: demo_env_def digit_char_def)
  have f: "rel_field blocks_item = ''item''"
    by (simp add: blocks_item_def)
  show ?thesis
    using C4_many_to_any_scope [OF a, of False "\<lparr>rootQuery = [], aliasMap = [], aliasCount = 0\<rparr>" "[''title'']" None]
      C4_many_to_any_scope [OF b, of False "\<lparr>rootQuery = [], aliasMap = [], aliasCount = 0\<rparr>" "[''title'']" None]
      c d
    by (simp add: e f)
qed

subsection \<open>One leaf of the predicate pass\<close>

lemma getFilterPath_key:
  assumes "getFilterPath key value = Inr filterPath"
  obtains others where "filterPath = key # others"
  using assms
  by (subst (asm) getFilterPath.simps)
    (auto split: sum.splits if_splits json.splits list.splits prod.splits)

lemma getFilterPath_keys:
  assumes "getFilterPath key value = Inr filterPath"
  obtains ks where "object_keys value = Inr ks"
  using assms
  by (subst (asm) getFilterPath.simps) (auto split: sum.splits)

lemma for_of_single: "for_of [x] body s = body s x"
  by (cases "body s x") simp_all

lemma addWhereClauses_entry:
  assumes "key \<noteq> ''_or''" and "key \<noteq> ''_and''"
    and "getFilterPath key value = Inr (key # others)"
    and "getRelationInfo env (getRelations env) collection (path_root key) = (relation, relationType)"
    and "getOperation key value = Inr (filterOperator, filterValue)"
  shows "addWhereClauses env subQuery collection logical st (JObj [(key, value)]) =
     (if relationType = Some M2O \<or> relationType = Some A2O \<or> relationType = None
      then where_leaf env collection logical st (key # others) filterOperator filterValue
      else if \<not> subQuery \<or> others \<noteq> [] then
        (case relation of
           None \<Rightarrow> Inr st
         | Some rel \<Rightarrow>
             (case getCollection env (rel_related_collection rel) of
                None \<Rightarrow> Inl TypeError
              | Some collectionInfo \<Rightarrow>
                  (case first_key value of
                     Inl e \<Rightarrow> Inl e
                   | Inr sentinel \<Rightarrow>
                       (case applyQuery env (rel_collection rel) (subquery_base rel, aliasCount st)
                               (filter_query (sub_filter sentinel value)) True of
                          Inl e \<Rightarrow> Inl e
                        | Inr sub \<Rightarrow>
                            Inr (st\<lparr>rootQuery := rootQuery st @
                                      [where_in_sub sentinel logical
                                         (pk_field collection collectionInfo relationType) (fst sub)],
                                    aliasCount := snd sub\<rparr>)))))
      else Inr st)"
  using assms
  by (simp add: addWhereClauses.simps [of _ _ _ _ _ "JObj _"] for_of_single del: for_of.simps
      cong: option.case_cong sum.case_cong)

subsection \<open>C5: operator validation\<close>

text \<open>
  C5, as stated, fails: the exception names the type and the operator, or the operator
  alone, and never the field. On the example schema the filter \<open>{name: {_lt: "x"}}\<close> on
  \<open>authors\<close> (\<open>name\<close> is a string, which has no \<open>_lt\<close>) raises a message in which
  \<open>name\<close> does not occur, and \<open>{token: {_eq: "x"}}\<close> on the concealed string field
  \<open>token\<close> one in which neither \<open>token\<close> nor \<open>string\<close> occurs.
\<close>

theorem C5_message_without_field_counterexample:
  "applyQuery demo_env ''authors'' ([], 0)
     (filter_query (JObj [(''name'', JObj [(''_lt'', JStr ''x'')])])) False =
     Inl (InvalidQueryException
            ''\"string\" field type does not contain the \"_lt\" filter operator'') \<and>
   \<not> sublist ''name'' ''\"string\" field type does not contain the \"_lt\" filter operator'' \<and>
   applyQuery demo_env ''authors'' ([], 0)
     (filter_query (JObj [(''token'', JObj [(''_eq'', JStr ''x'')])])) False =
     Inl (InvalidQueryException
            ''Field with \"conceal\" special does not allow the \"_eq\" filter operator'') \<and>
   \<not> sublist ''token'' ''Field with \"conceal\" special does not allow the \"_eq\" filter operator'' \<and>
   \<not> sublist ''string'' ''Field with \"conceal\" special does not allow the \"_eq\" filter operator''"
  by code_simp

text \<open>
  C5, amended: for a leaf on a scalar, m2o or a2o path whose column resolves and whose
  target field the schema knows, the compiler strips the leading underscore of the
  operator and looks it up among the operators of the field's type; if it is missing, the
  compilation ends in an invalid-query exception whose message names the type and the
  operator. Otherwise, if the field is marked \<open>conceal\<close> and the operator is not among the
  operators of the type \<open>hash\<close>, it ends in an invalid-query exception whose message
  names the operator. In both cases nothing is added to the query. Otherwise the leaf is
  handed to \<open>applyFilterToQuery\<close>.
\<close>

theorem C5_operator_validation:
  assumes "key \<noteq> ''_or''" and "key \<noteq> ''_and''"
    and "getFilterPath key value = Inr (key # others)"
    and "getRelationInfo env (getRelations env) collection (path_root key) = (relation, relationType)"
    and "relationType = Some M2O \<or> relationType = Some A2O \<or> relationType = None"
    and "getOperation key value = Inr (filterOperator, filterValue)"
    and "(others = [] \<and> columnKey = collection @ ''.'' @ key \<and>
          getField env collection (stripFunction env key) = Some target \<and> original = None) \<or>
         (others \<noteq> [] \<and>
          getColumnPath env (key # others) collection (Aliases (aliasMap st)) (getRelations env) =
            Inr (columnKey, targetCollection) \<and> columnKey \<noteq> [] \<and>
          getField env targetCollection (stripFunction env (last (key # others))) = Some target \<and>
          original = Some targetCollection)"
    and "operator = (if startsWith filterOperator ''_'' then drop 1 filterOperator else filterOperator)"
  shows "addWhereClauses env subQuery collection logical st (JObj [(key, value)]) =
     (if operator \<notin> set (getFilterOperatorsForType env (field_type target))
      then Inl (InvalidQueryException
                  (''\"'' @ field_type target @ ''\" field type does not contain the \"_'' @ operator @
                   ''\" filter operator''))
      else if ''conceal'' \<in> set (field_special target) \<and>
              operator \<notin> set (getFilterOperatorsForType env ''hash'')
      then Inl (InvalidQueryException
                  (''Field with \"conceal\" special does not allow the \"_'' @ operator @
                   ''\" filter operator''))
      else (case applyFilterToQuery env (rootQuery st) columnKey filterOperator filterValue
                   logical original of
              Inl e \<Rightarrow> Inl e
            | Inr q \<Rightarrow> Inr (st\<lparr>rootQuery := q\<rparr>)))"
proof -
  have entry: "addWhereClauses env subQuery collection logical st (JObj [(key, value)]) =
                 where_leaf env collection logical st (key # others) filterOperator filterValue"
    using addWhereClauses_entry [OF assms(1-4) assms(6)] assms(5) by simp
  show ?thesis
    using assms(7)
  proof (elim disjE conjE)
    assume "others = []" "columnKey = collection @ ''.'' @ key"
      "getField env collection (stripFunction env key) = Some target" "original = None"
    then show ?thesis
      unfolding entry assms(8)
      by (simp add: where_leaf_def validateFilterOperator_def js_includes_def type_message_def
          conceal_message_def column_of_def Let_def)
  next
    assume "others \<noteq> []"
      "getColumnPath env (key # others) collection (Aliases (aliasMap st)) (getRelations env) =
         Inr (columnKey, targetCollection)"
      "columnKey \<noteq> []"
      "getField env targetCollection (stripFunction env (last (key # others))) = Some target"
      "original = Some targetCollection"
    then show ?thesis
      unfolding entry assms(8)
      by (simp add: where_leaf_def validateFilterOperator_def js_includes_def type_message_def
          conceal_message_def Let_def)
  qed
qed

theorem C5_operator_validation_witness:
  "addWhereClauses demo_env False ''authors'' And \<lparr>rootQuery = [], aliasMap = [], aliasCount = 0\<rparr>
     (JObj [(''name'', JObj [(''_lt'', JStr ''x'')])]) =
     Inl (InvalidQueryException
            ''\"string\" field type does not contain the \"_lt\" filter operator'') \<and>
   addWhereClauses demo_env False ''authors'' And \<lparr>rootQuery = [], aliasMap = [], aliasCount = 0\<rparr>
     (JObj [(''token'', JObj [(''_eq'', JStr ''x'')])]) =
     Inl (InvalidQueryException
            ''Field with \"conceal\" special does not allow the \"_eq\" filter operator'')"
proof -
  have path: "getFilterPath ''name'' (JObj [(''_lt'', JStr ''x'')]) = Inr [''name'']"
    "getFilterPath ''token'' (JObj [(''_eq'', JStr ''x'')]) = Inr [''token'']"
    by code_simp+
  have rel: "getRelationInfo demo_env (getRelations demo_env) ''authors'' (path_root ''name'') =
               (None, None)"
    "getRelationInfo demo_env (getRelations demo_env) ''authors'' (path_root ''token'') =
               (None, None)"
    by code_simp+
  have op: "getOperation ''name'' (JObj [(''_lt'', JStr ''x'')]) = Inr (''_lt'', JStr ''x'')"
    "getOperation ''token'' (JObj [(''_eq'', JStr ''x'')]) = Inr (''_eq'', JStr ''x'')"
    by code_simp+
  have target:
    "getField demo_env ''authors'' (stripFunction demo_env ''name'') =
       Some \<lparr>field_type = ''string'', field_special = []\<rparr>"
    "getField demo_env ''authors'' (stripFunction demo_env ''token'') =
       Some \<lparr>field_type = ''string'', field_special = [''conceal'']\<rparr>"
    by code_simp+
  have ops: "''lt'' \<notin> set (getFilterOperatorsForType demo_env ''string'')"
    "''eq'' \<in> set (getFilterOperatorsForType demo_env ''string'')"
    "''eq'' \<notin> set (getFilterOperatorsForType demo_env ''hash'')"
    by code_simp+
  have a: "addWhereClauses demo_env False ''authors'' And \<lparr>rootQuery = [], aliasMap = [], aliasCount = 0\<rparr>
     (JObj [(''name'', JObj [(''_lt'', JStr ''x'')])]) =
     Inl (InvalidQueryException
            ''\"string\" field type does not contain the \"_lt\" filter operator'')"
    using C5_operator_validation [where key = "''name''" and others = "[]" and env = demo_env
        and collection = "''authors''" and relationType = None and filterOperator = "''_lt''"
        and columnKey = "''authors.name''" and original = None and operator = "''lt''"
        and target = "\<lparr>field_type = ''string'', field_special = []\<rparr>", OF _ _ path(1) rel(1) _ op(1)]
      target(1) ops
    by (simp add: startsWith_def)
  have b: "addWhereClauses demo_env False ''authors'' And \<lparr>rootQuery = [], aliasMap = [], aliasCount = 0\<rparr>
     (JObj [(''token'', JObj [(''_eq'', JStr ''x'')])]) =
     Inl (InvalidQueryException
            ''Field with \"conceal\" special does not allow the \"_eq\" filter operator'')"
    using C5_operator_validation [where key = "''token''" and others = "[]" and env = demo_env
        and collection = "''authors''" and relationType = None and filterOperator = "''_eq''"
        and columnKey = "''authors.token''" and original = None and operator = "''eq''"
        and target = "\<lparr>field_type = ''string'', field_special = [''conceal'']\<rparr>",
        OF _ _ path(2) rel(2) _ op(2)]
      target(2) ops
    by (simp add: startsWith_def)
  show ?thesis
    using a b by simp
qed

subsection \<open>C1: the existential subquery of a to-many relation\<close>



subsection \<open>The paging calls of a query\<close>

lemma paging_append [simp]: "paging (xs @ ys) = paging xs @ paging ys"
  by (simp add: paging_def)

lemma paging_Nil [simp]: "paging [] = []"
  by (simp add: paging_def)

lemma paging_Cons [simp]: "paging (c # cs) = (if is_paging c then c # paging cs else paging cs)"
  by (simp add: paging_def)

lemma paging_joins: "list_all is_join js \<Longrightarrow> paging js = []"
  by (induction js) (auto simp: paging_def elim: is_join.elims)

lemma extends_by_joins_paging:
  "extends_by_joins st st' \<Longrightarrow> paging (rootQuery st') = paging (rootQuery st)"
  by (auto simp: extends_by_joins_def paging_joins)

lemma addJoin_paging:
  "addJoin env subQuery st path collection = Inr st' \<Longrightarrow>
   paging (rootQuery st') = paging (rootQuery st)"
  by (simp add: addJoin_def followRelation_extends extends_by_joins_paging)

lemma addJoins_paging:
  "addJoins env subQuery collection st fltr = Inr st' \<Longrightarrow>
   paging (rootQuery st') = paging (rootQuery st)"
proof (induction env subQuery collection st fltr arbitrary: st' rule: addJoins.induct)
  case (1 env subQuery collection st fltr)
  obtain es where es: "filter_entries fltr = Inr es"
    using "1.prems" by (subst (asm) addJoins.simps) (auto split: sum.splits)
  show ?case
  proof (rule for_of_preserves [where f = "\<lambda>s. paging (rootQuery s)"])
    show "for_of es
            (\<lambda>st entry.
               if fst entry = ''_or'' \<or> fst entry = ''_and'' then
                 (case (if fst entry = ''_or'' then array_some_empty (snd entry) else Inr False) of
                    Inl e \<Rightarrow> Inl e
                  | Inr skip \<Rightarrow>
                      if skip then Inr st
                      else (case js_iterate (snd entry) of
                              Inl e \<Rightarrow> Inl e
                            | Inr subFilters \<Rightarrow>
                                for_of subFilters
                                  (\<lambda>st subFilter. addJoins env subQuery collection st subFilter)
                                  st))
               else
                 (case getFilterPath (fst entry) (snd entry) of
                    Inl e \<Rightarrow> Inl e
                  | Inr filterPath \<Rightarrow>
                      if length filterPath > 1
                      then addJoin env subQuery st filterPath collection
                      else Inr st))
            st = Inr st'"
      using "1.prems" es by (subst (asm) addJoins.simps) simp
  next
    fix entry u u'
    assume entry: "entry \<in> set es"
      and step: "(if fst entry = ''_or'' \<or> fst entry = ''_and'' then
                 (case (if fst entry = ''_or'' then array_some_empty (snd entry) else Inr False) of
                    Inl e \<Rightarrow> Inl e
                  | Inr skip \<Rightarrow>
                      if skip then Inr u
                      else (case js_iterate (snd entry) of
                              Inl e \<Rightarrow> Inl e
                            | Inr subFilters \<Rightarrow>
                                for_of subFilters
                                  (\<lambda>st subFilter. addJoins env subQuery collection st subFilter)
                                  u))
               else
                 (case getFilterPath (fst entry) (snd entry) of
                    Inl e \<Rightarrow> Inl e
                  | Inr filterPath \<Rightarrow>
                      if length filterPath > 1
                      then addJoin env subQuery u filterPath collection
                      else Inr u)) = Inr u'"
    show "paging (rootQuery u') = paging (rootQuery u)"
    proof (cases "fst entry = ''_or'' \<or> fst entry = ''_and''")
      case True
      then obtain skip where
        skip: "(if fst entry = ''_or'' then array_some_empty (snd entry) else Inr False) = Inr skip"
        and rest: "(if skip then Inr u
                    else (case js_iterate (snd entry) of
                            Inl e \<Rightarrow> Inl e
                          | Inr subFilters \<Rightarrow>
                              for_of subFilters
                                (\<lambda>st subFilter. addJoins env subQuery collection st subFilter)
                                u)) = Inr u'"
        using step by (auto split: sum.splits)
      show ?thesis
      proof (cases skip)
        case True
        then show ?thesis using rest by simp
      next
        case False
        then obtain subFilters where
          subs: "js_iterate (snd entry) = Inr subFilters"
          and loop: "for_of subFilters
                       (\<lambda>st subFilter. addJoins env subQuery collection st subFilter) u = Inr u'"
          using rest by (auto split: sum.splits)
        show ?thesis
        proof (rule for_of_preserves [OF loop, where f = "\<lambda>s. paging (rootQuery s)"])
          fix subFilter v v'
          assume "subFilter \<in> set subFilters"
            and "addJoins env subQuery collection v subFilter = Inr v'"
          then show "paging (rootQuery v') = paging (rootQuery v)"
            using "1.IH" [OF es entry \<open>fst entry = ''_or'' \<or> fst entry = ''_and''\<close> skip _ subs] False
            by simp
        qed
      qed
    next
      case False
      then show ?thesis
        using step addJoin_paging by (auto split: sum.splits if_splits)
    qed
  qed
qed

lemma on_operator_safe: "\<not> is_paging c \<Longrightarrow> paging_safe (on_operator guard c)"
  by (auto simp: paging_safe_def on_operator_def)

lemma on_operator_lower_safe:
  "(\<And>s. \<not> is_paging (c s)) \<Longrightarrow> paging_safe (on_operator_lower env guard v c)"
  by (auto simp: paging_safe_def on_operator_lower_def split: sum.splits if_splits)

lemma run_steps_safe: "list_all paging_safe steps \<Longrightarrow> paging_safe (run_steps steps)"
  unfolding paging_safe_def run_steps_def
proof (intro allI impI)
  fix q q'
  assume safe: "list_all (\<lambda>step. \<forall>q q'. step q = Inr q' \<longrightarrow> paging q' = paging q) steps"
    and run: "for_of steps (\<lambda>q step. step q) q = Inr q'"
  show "paging q' = paging q"
    by (rule for_of_preserves [OF run]) (use safe in \<open>auto simp: list_all_iff\<close>)
qed

lemma between_step_safe:
  "paging_safe rest \<Longrightarrow> (\<And>v. \<not> is_paging (c v)) \<Longrightarrow> paging_safe (between_step guard v c rest)"
  by (auto simp: paging_safe_def between_step_def split: sum.splits if_splits)

lemma null_steps_safe: "list_all paging_safe (null_steps logical key selectionRaw operator v)"
  by (simp add: null_steps_def on_operator_safe)

lemma value_steps_safe: "list_all paging_safe (value_steps env logical key selectionRaw operator v)"
  by (simp add: value_steps_def on_operator_safe on_operator_lower_safe)

lemma spatial_steps_safe: "list_all paging_safe (spatial_steps env logical key operator v)"
  by (simp add: spatial_steps_def on_operator_safe)

lemma applyFilterToQuery_paging:
  assumes "applyFilterToQuery env dbQuery key operator v logical original = Inr q"
  shows "paging q = paging dbQuery"
proof -
  have n: "\<And>sel w a b. run_steps (null_steps logical key sel operator w) a = Inr b \<Longrightarrow>
              paging b = paging a"
    using run_steps_safe [OF null_steps_safe] by (simp add: paging_safe_def)
  have v: "\<And>sel w a b. run_steps (value_steps env logical key sel operator w) a = Inr b \<Longrightarrow>
              paging b = paging a"
    using run_steps_safe [OF value_steps_safe] by (simp add: paging_safe_def)
  have "paging_safe
          (between_step (operator = ''_between'') w (WhereBetween logical sel)
             (between_step (operator = ''_nbetween'') w (WhereNotBetween logical sel)
                (run_steps (spatial_steps env logical key operator w))))" for sel w
    by (intro between_step_safe run_steps_safe spatial_steps_safe) simp_all
  then have b: "\<And>sel w a b.
      between_step (operator = ''_between'') w (WhereBetween logical sel)
        (between_step (operator = ''_nbetween'') w (WhereNotBetween logical sel)
           (run_steps (spatial_steps env logical key operator w))) a = Inr b \<Longrightarrow>
      paging b = paging a"
    by (simp add: paging_safe_def)
  show ?thesis
    using assms
    by (auto simp: applyFilterToQuery_def Let_def dest!: n v b
        split: sum.splits if_splits option.splits)
qed

lemma where_leaf_paging:
  assumes "where_leaf env collection logical st filterPath filterOperator filterValue = Inr st'"
  shows "paging (rootQuery st') = paging (rootQuery st)"
  using assms
  by (auto simp: where_leaf_def dest: applyFilterToQuery_paging
      split: sum.splits if_splits option.splits list.splits prod.splits)

lemma where_in_sub_not_paging: "\<not> is_paging (where_in_sub sentinel logical pk sub)"
  by (simp add: where_in_sub_def)

lemma addWhereClauses_paging:
  "addWhereClauses env subQuery collection logical st fltr = Inr st' \<Longrightarrow>
   paging (rootQuery st') = paging (rootQuery st)"
proof -
  have "\<forall>st'. addWhereClauses env subQuery collection logical st fltr = Inr st' \<longrightarrow>
          paging (rootQuery st') = paging (rootQuery st)"
  proof (rule applyQuery_applyFilter_addWhereClauses.induct(3)
      [where P = "\<lambda>env collection target query subQuery. True"
        and Q = "\<lambda>env target rootFilter collection subQuery. True"
        and R = "\<lambda>env subQuery collection logical st fltr.
                   \<forall>st'. addWhereClauses env subQuery collection logical st fltr = Inr st' \<longrightarrow>
                     paging (rootQuery st') = paging (rootQuery st)"], goal_cases)
    case 1
    show ?case by simp
  next
    case 2
    show ?case by simp
  next
    case (3 env subQuery collection logical st fltr)
    show ?case
    proof (intro allI impI)
      fix st'
      assume run: "addWhereClauses env subQuery collection logical st fltr = Inr st'"
      obtain es where es: "filter_entries fltr = Inr es"
        using run by (subst (asm) addWhereClauses.simps) (auto split: sum.splits)
      have loop: "for_of es
        (\<lambda>st entry.
           if fst entry = ''_or'' \<or> fst entry = ''_and'' then
             (case (if fst entry = ''_or'' then array_some_empty (snd entry) else Inr False) of
                Inl e \<Rightarrow> Inl e
              | Inr skip \<Rightarrow>
                  if skip then Inr st
                  else (case js_iterate (snd entry) of
                          Inl e \<Rightarrow> Inl e
                        | Inr subFilters \<Rightarrow>
                            for_of subFilters
                              (\<lambda>st subFilter.
                                 addWhereClauses env subQuery collection
                                   (if fst entry = ''_and'' then And else Or) st subFilter)
                              st))
           else
             (case getFilterPath (fst entry) (snd entry) of
                Inl e \<Rightarrow> Inl e
              | Inr filterPath \<Rightarrow>
                  (case getRelationInfo env (getRelations env) collection
                          (path_root (case filterPath of [] \<Rightarrow> [] | segment # others \<Rightarrow> segment)) of
                     (relation, relationType) \<Rightarrow>
                       (case getOperation (fst entry) (snd entry) of
                          Inl e \<Rightarrow> Inl e
                        | Inr operation \<Rightarrow>
                            if relationType = Some M2O \<or> relationType = Some A2O \<or> relationType = None
                            then where_leaf env collection logical st filterPath
                                   (fst operation) (snd operation)
                            else if \<not> subQuery \<or> length filterPath > 1 then
                              (case relation of
                                 None \<Rightarrow> Inr st
                               | Some rel \<Rightarrow>
                                   (case getCollection env (rel_related_collection rel) of
                                      None \<Rightarrow> Inl TypeError
                                    | Some collectionInfo \<Rightarrow>
                                        (case first_key (snd entry) of
                                           Inl e \<Rightarrow> Inl e
                                         | Inr sentinel \<Rightarrow>
                                             (case applyQuery env (rel_collection rel)
                                                     (subquery_base rel, aliasCount st)
                                                     (filter_query (sub_filter sentinel (snd entry)))
                                                     True of
                                                Inl e \<Rightarrow> Inl e
                                              | Inr sub \<Rightarrow>
                                                  Inr (st\<lparr>rootQuery := rootQuery st @
                                                            [where_in_sub sentinel logical
                                                               (pk_field collection collectionInfo relationType)
                                                               (fst sub)],
                                                          aliasCount := snd sub\<rparr>)))))
                            else Inr st))))
        st = Inr st'"
        using run es by (subst (asm) addWhereClauses.simps) simp
      show "paging (rootQuery st') = paging (rootQuery st)"
      proof (rule for_of_preserves [OF loop, where f = "\<lambda>s. paging (rootQuery s)"], goal_cases)
        case (1 entry u u')
        show ?case
        proof (cases "fst entry = ''_or'' \<or> fst entry = ''_and''")
          case True
          then obtain skip where
            skip: "(if fst entry = ''_or'' then array_some_empty (snd entry) else Inr False) = Inr skip"
            and rest: "(if skip then Inr u
                        else (case js_iterate (snd entry) of
                                Inl e \<Rightarrow> Inl e
                              | Inr subFilters \<Rightarrow>
                                  for_of subFilters
                                    (\<lambda>st subFilter.
                                       addWhereClauses env subQuery collection
                                         (if fst entry = ''_and'' then And else Or) st subFilter)
                                    u)) = Inr u'"
            using 1(2) by (auto split: sum.splits)
          show ?thesis
          proof (cases skip)
            case True
            then show ?thesis using rest by simp
          next
            case False
            then obtain subFilters where
              subs: "js_iterate (snd entry) = Inr subFilters"
              and inner: "for_of subFilters
                           (\<lambda>st subFilter.
                              addWhereClauses env subQuery collection
                                (if fst entry = ''_and'' then And else Or) st subFilter) u = Inr u'"
              using rest by (auto split: sum.splits)
            show ?thesis
            proof (rule for_of_preserves [OF inner, where f = "\<lambda>s. paging (rootQuery s)"])
              fix subFilter v v'
              assume "subFilter \<in> set subFilters"
                and "addWhereClauses env subQuery collection
                       (if fst entry = ''_and'' then And else Or) v subFilter = Inr v'"
              then show "paging (rootQuery v') = paging (rootQuery v)"
                using 3(1) [OF es 1(1) \<open>fst entry = ''_or'' \<or> fst entry = ''_and''\<close> skip _ subs] False
                by simp
            qed
          qed
        next
          case False
          then show ?thesis
            using 1(2) where_leaf_paging [of env collection logical u _ _ _ u']
            by (auto simp: where_in_sub_not_paging
                split: sum.splits if_splits option.splits prod.splits)
        qed
      qed
    qed
  qed
  then show "addWhereClauses env subQuery collection logical st fltr = Inr st' \<Longrightarrow>
    paging (rootQuery st') = paging (rootQuery st)"
    by simp
qed

lemma applyFilter_paging:
  assumes "applyFilter env target rootFilter collection subQuery = Inr result"
  shows "paging (fst result) = paging (fst target)"
proof -
  obtain st1 st2 where
    a: "addJoins env subQuery collection
          \<lparr>rootQuery = fst target, aliasMap = [], aliasCount = snd target\<rparr> rootFilter = Inr st1"
    and b: "addWhereClauses env subQuery collection And st1 rootFilter = Inr st2"
    and c: "result = (rootQuery st2, aliasCount st2)"
    using assms by (auto simp: applyFilter.simps split: sum.splits)
  show ?thesis
    using addJoins_paging [OF a] addWhereClauses_paging [OF b] c by simp
qed

lemma applySort_field_paging:
  assumes "applySort_field env collection subQuery acc sortField = Inr acc'"
  shows "paging (rootQuery (fst acc')) = paging (rootQuery (fst acc))"
  using assms
  by (auto simp: applySort_field_def Let_def dest: addJoin_paging
      split: sum.splits if_splits prod.splits)

lemma applySort_paging:
  assumes "applySort env target rootSort collection subQuery = Inr result"
  shows "paging (fst result) = paging (fst target)"
proof -
  obtain acc where
    loop: "for_of rootSort (applySort_field env collection subQuery)
             (\<lparr>rootQuery = fst target, aliasMap = [], aliasCount = snd target\<rparr>, []) = Inr acc"
    and result: "result = (rootQuery (fst acc) @ [OrderBy (snd acc)], aliasCount (fst acc))"
    using assms by (auto simp: applySort_def split: sum.splits)
  have "paging (rootQuery (fst acc)) =
        paging (rootQuery (fst (\<lparr>rootQuery = fst target, aliasMap = [], aliasCount = snd target\<rparr>,
                                [] :: (order \<times> expr) list)))"
    by (rule for_of_preserves [OF loop]) (rule applySort_field_paging)
  then show ?thesis
    using result by simp
qed

lemma applySearch_paging: "paging (applySearch env dbQuery search collection) = paging dbQuery"
  by (simp add: applySearch_def)

lemma apply_group_paging:
  "apply_group env collection dbQuery columns = Inr q \<Longrightarrow> paging q = paging dbQuery"
  by (auto simp: apply_group_def split: sum.splits)

lemma applyAggregate_field_paging:
  "paging (applyAggregate_field collection operation dbQuery fname) = paging dbQuery"
  by (simp add: applyAggregate_field_def Let_def)

lemma applyAggregate_fields_paging:
  "paging (foldl (applyAggregate_field collection operation) dbQuery fieldList) = paging dbQuery"
  by (induction fieldList arbitrary: dbQuery) (simp_all add: applyAggregate_field_paging)

lemma applyAggregate_paging: "paging (applyAggregate dbQuery agg collection) = paging dbQuery"
  by (induction dbQuery agg collection rule: applyAggregate.induct)
    (simp_all add: applyAggregate_fields_paging)

text \<open>The paging calls of a compiled query are those of lines 41--51.\<close>

lemma applyQuery_paging:
  assumes "applyQuery env collection target query subQuery = Inr result"
  shows "paging (fst result) = paging (apply_paging query (fst target))"
proof -
  define searched where
    "searched = (\<lambda>ordered :: builder \<times> nat.
       case q_search query of
         Some search \<Rightarrow>
           if search \<noteq> [] then applySearch env (apply_paging query (fst ordered)) search collection
           else apply_paging query (fst ordered)
       | None \<Rightarrow> apply_paging query (fst ordered))"
  define aggregated where
    "aggregated = (\<lambda>q3. case q_aggregate query of
                            Some aggregate \<Rightarrow> applyAggregate q3 aggregate collection
                          | None \<Rightarrow> q3)"
  have chain:
    "(case (case q_sort query of
              Some sortFields \<Rightarrow> applySort env target sortFields collection subQuery
            | None \<Rightarrow> Inr target) of
        Inl e \<Rightarrow> Inl e
      | Inr ordered \<Rightarrow>
          (case (case q_group query of
                   Some groupFields \<Rightarrow> apply_group env collection (searched ordered) groupFields
                 | None \<Rightarrow> Inr (searched ordered)) of
             Inl e \<Rightarrow> Inl e
           | Inr q3 \<Rightarrow>
               if js_truthy (q_filter query)
               then applyFilter env (aggregated q3, snd ordered) (q_filter query) collection subQuery
               else Inr (aggregated q3, snd ordered))) = Inr result"
    using assms unfolding applyQuery.simps Let_def searched_def aggregated_def .
  from chain obtain ordered where
    s: "(case q_sort query of
           Some sortFields \<Rightarrow> applySort env target sortFields collection subQuery
         | None \<Rightarrow> Inr target) = Inr ordered"
    and chain1:
    "(case (case q_group query of
              Some groupFields \<Rightarrow> apply_group env collection (searched ordered) groupFields
            | None \<Rightarrow> Inr (searched ordered)) of
        Inl e \<Rightarrow> Inl e
      | Inr q3 \<Rightarrow>
          if js_truthy (q_filter query)
          then applyFilter env (aggregated q3, snd ordered) (q_filter query) collection subQuery
          else Inr (aggregated q3, snd ordered)) = Inr result"
    by (rule bind_InrE)
  from chain1 obtain q3 where
    g: "(case q_group query of
           Some groupFields \<Rightarrow> apply_group env collection (searched ordered) groupFields
         | None \<Rightarrow> Inr (searched ordered)) = Inr q3"
    and f: "(if js_truthy (q_filter query)
             then applyFilter env (aggregated q3, snd ordered) (q_filter query) collection subQuery
             else Inr (aggregated q3, snd ordered)) = Inr result"
    by (rule bind_InrE)
  have p0: "paging (fst ordered) = paging (fst target)"
    using s applySort_paging by (auto split: option.splits)
  have shape: "\<And>a b. paging a = paging b \<Longrightarrow> paging (apply_paging query a) = paging (apply_paging query b)"
    by (simp add: apply_paging_def Let_def split: option.splits)
  have p2: "paging (searched ordered) = paging (apply_paging query (fst target))"
    using shape [OF p0] by (simp add: searched_def applySearch_paging split: option.splits)
  have p3: "paging q3 = paging (searched ordered)"
    using g apply_group_paging by (auto split: option.splits)
  have p4: "paging (aggregated q3) = paging q3"
    by (simp add: aggregated_def applyAggregate_paging split: option.splits)
  have p5: "paging (fst result) = paging (aggregated q3)"
    using f applyFilter_paging [of env "(aggregated q3, snd ordered)" "q_filter query" collection
        subQuery result]
    by (auto split: if_splits)
  show ?thesis
    using p2 p3 p4 p5 by simp
qed



subsection \<open>C9: \<open>page\<close> against \<open>offset\<close>\<close>




subsection \<open>C10: the limit -1\<close>

text \<open>
  C10: when the limit of the query is -1 or absent (\<open>undefined\<close> or \<open>null\<close>; the \<open>Query\<close>
  type allows nothing else that is not a number), a successful \<open>applyQuery\<close> has made no
  call of \<open>limit\<close>, and no call of \<open>offset\<close> but the one with the explicit offset of the
  query, if that is not 0; the page has no effect on the outcome at all.
\<close>

theorem C10_limit_minus_one:
  assumes "q_limit query = None \<or> q_limit query = Some (- 1)"
  shows "(\<forall>result n'. applyQuery env collection (dbQuery, n) query subQuery = Inr (result, n') \<longrightarrow>
            paging result =
              paging dbQuery @
              (case q_offset query of
                 Some offset \<Rightarrow> if offset \<noteq> 0 then [Offset offset] else []
               | None \<Rightarrow> [])) \<and>
         applyQuery env collection (dbQuery, n) (query\<lparr>q_page := page\<rparr>) subQuery =
           applyQuery env collection (dbQuery, n) query subQuery"
proof (intro conjI allI impI)
  fix result n'
  assume run: "applyQuery env collection (dbQuery, n) query subQuery = Inr (result, n')"
  show "paging result =
          paging dbQuery @
          (case q_offset query of
             Some offset \<Rightarrow> if offset \<noteq> 0 then [Offset offset] else []
           | None \<Rightarrow> [])"
    using applyQuery_paging [OF run] assms
    by (auto simp: apply_paging_def Let_def split: option.splits)
next
  have "apply_paging (query\<lparr>q_page := page\<rparr>) = apply_paging query"
    using assms by (auto simp: apply_paging_def Let_def fun_eq_iff split: option.splits)
  then show "applyQuery env collection (dbQuery, n) (query\<lparr>q_page := page\<rparr>) subQuery =
          applyQuery env collection (dbQuery, n) query subQuery"
    by (simp add: applyQuery.simps Let_def cong: sum.case_cong if_cong)
qed

theorem C10_limit_minus_one_witness:
  "applyQuery demo_env ''articles'' ([], 0)
     ((filter_query (JObj [(''title'', JObj [(''_eq'', JStr ''x'')])]))
        \<lparr>q_limit := Some (- 1), q_offset := Some 5, q_page := Some 3\<rparr>) False =
     Inr ([Offset 5, Where And (Column ''articles.title'') ''='' (JStr ''x'')], 0) \<and>
   paging [Offset 5, Where And (Column ''articles.title'') ''='' (JStr ''x'')] = [Offset 5]"
proof -
  have run: "applyQuery demo_env ''articles'' ([], 0)
     ((filter_query (JObj [(''title'', JObj [(''_eq'', JStr ''x'')])]))
        \<lparr>q_limit := Some (- 1), q_offset := Some 5, q_page := Some 3\<rparr>) False =
     Inr ([Offset 5, Where And (Column ''articles.title'') ''='' (JStr ''x'')], 0)"
    by code_simp
  show ?thesis
    using C10_limit_minus_one
      [where query = "(filter_query (JObj [(''title'', JObj [(''_eq'', JStr ''x'')])]))
                        \<lparr>q_limit := Some (- 1), q_offset := Some 5, q_page := Some 3\<rparr>"
        and env = demo_env and collection = "''articles''" and dbQuery = "[]" and n = 0
        and subQuery = False]
      run
    by (simp add: filter_query_def)
qed

subsection \<open>The path resolver and the alias map\<close>









lemma join_m2o_count: "join_m2o pa pc rel al info st = Inr st' \<Longrightarrow> aliasCount st' = aliasCount st"
  by (auto simp: join_m2o_def leftJoin_def split: option.splits)

lemma join_a2o_count: "join_a2o env pa pc rel al segment st = Inr st' \<Longrightarrow> aliasCount st' = aliasCount st"
  by (auto simp: join_a2o_def leftJoin_def split: option.splits if_splits)

lemma join_o2a_count: "join_o2a env pa pc rel al st = Inr st' \<Longrightarrow> aliasCount st' = aliasCount st"
  by (auto simp: join_o2a_def leftJoin_def split: option.splits)

lemma join_o2m_count: "join_o2m pa pc rel al info st = Inr st' \<Longrightarrow> aliasCount st' = aliasCount st"
  by (auto simp: join_o2m_def leftJoin_def split: option.splits)











subsection \<open>C2: the resolver is not idempotent\<close>




end
